theory Spec2Isabelle
  imports Complex_Main "HOL-Library.Word"
begin

section \<open>The OSVR rendering plugin for Unity (OsvrRenderingPlugin.cpp)\<close>

text \<open>
  The plugin is a set of C entry points over process-wide globals. The model threads
  the globals through every function as one record, \<open>plugin_state\<close>. What the
  external collaborators (Unity, the OSVR RenderManager, Direct3D 11, OpenGL) answer
  is not decided by this file: their answers are taken from a record \<open>host\<close>
  that each entry point receives, and every call made to them is appended, with its
  arguments, to the field \<open>trace\<close> of the state. The trace is write-only: no
  function of the plugin reads it. A line of the debug log is such a call only when a
  sink is installed: \<open>DebugLog\<close> calls the function pointer \<open>debugLog\<close>
  if it is not null, and does nothing otherwise.

  Both backends are compiled in (\<open>SUPPORT_D3D11\<close> and \<open>SUPPORT_OPENGL\<close>):
  the functions \<open>Shutdown\<close>, \<open>SetColorBufferFromUnity\<close> and
  \<open>OnRenderEvent\<close> use both without a guard.

  Undefined behaviour of the C++ (a dereference of a null, deleted or unset pointer, a
  second \<open>delete\<close> of the same object, a vector index out of range, a
  floating-point value converted to an integer type that cannot hold it) is a value
  of the model: \<open>Inl\<close> of a \<open>fault\<close>.
\<close>

subsection \<open>Pointers and faults\<close>

datatype fault =
    NullDereference
  | UseAfterFree
  | DoubleFree
  | UninitialisedRead
  | IndexOutOfRange
  | FloatToIntOverflow

text \<open>
  Every object this file allocates with \<open>new\<close>, and the render manager, is
  reached through exactly one pointer, so a pointer is modelled by what it points to:
  nothing (\<open>nullptr\<close>), a live object, an object that was deleted (the pointer
  keeps its old value and dangles), or a field that was never assigned.
\<close>

datatype 'a ptr = nullptr | Valid 'a | Deleted 'a | Unset

definition and_then :: "fault + 'a \<Rightarrow> ('a \<Rightarrow> fault + 'b) \<Rightarrow> fault + 'b" where
  "and_then m k = (case m of Inl f \<Rightarrow> Inl f | Inr x \<Rightarrow> k x)"

definition deref :: "'a ptr \<Rightarrow> fault + 'a" where
  "deref p = (case p of
      nullptr \<Rightarrow> Inl NullDereference
    | Valid a \<Rightarrow> Inr a
    | Deleted a \<Rightarrow> Inl UseAfterFree
    | Unset \<Rightarrow> Inl UninitialisedRead)"

text \<open>\<open>v[i]\<close> on a \<open>std::vector\<close> with an \<open>int\<close> index (converted to \<open>size_t\<close>).\<close>

definition at_index :: "'a list \<Rightarrow> int \<Rightarrow> fault + 'a" where
  "at_index xs i = (if 0 \<le> i \<and> nat i < length xs then Inr (xs ! nat i) else Inl IndexOutOfRange)"

text \<open>
  \<open>static_cast<int>(d)\<close> of a finite \<open>double\<close>: truncation towards zero,
  undefined when the result does not fit 32 bits. A \<open>double\<close> is only ever
  converted, never computed with, so it is modelled by the real number it denotes.
\<close>

definition double_to_int :: "real \<Rightarrow> fault + int" where
  "double_to_int d =
     (let t = (if 0 \<le> d then \<lfloor>d\<rfloor> else \<lceil>d\<rceil>)
      in if - 2147483648 \<le> t \<and> t \<le> 2147483647 then Inr t else Inl FloatToIntOverflow)"

fun for_each :: "nat list \<Rightarrow> (nat \<Rightarrow> 's \<Rightarrow> fault + 's) \<Rightarrow> 's \<Rightarrow> fault + 's" where
  "for_each [] body s = Inr s"
| "for_each (i # rest) body s = and_then (body i s) (for_each rest body)"

subsection \<open>Types of the collaborators' headers\<close>

type_synonym address = nat
type_synonym GLuint = "32 word"
type_synonym OSVR_ClientContext = nat

datatype OSVR_ReturnCode = OSVR_RETURN_SUCCESS | OSVR_RETURN_FAILURE

datatype UnityGfxDeviceEventType =
    kUnityGfxDeviceEventInitialize
  | kUnityGfxDeviceEventShutdown
  | kUnityGfxDeviceEventBeforeReset
  | kUnityGfxDeviceEventAfterReset

text \<open>
  \<open>UnityGfxRenderer\<close> is an enumeration of Unity/IUnityGraphics.h, which is not
  among the sources; the plugin compares a renderer with the integer \<open>-1\<close>, so a
  renderer is its integer value, and the values of the three enumerators the plugin
  names are a parameter of the model.
\<close>

record UnityGfxRenderer =
  kUnityGfxRendererOpenGL :: int
  kUnityGfxRendererD3D11 :: int
  kUnityGfxRendererNull :: int

text \<open>Enumerators of one enumeration that name different renderers have different values.\<close>

definition distinct_renderers :: "UnityGfxRenderer \<Rightarrow> bool" where
  "distinct_renderers U =
     distinct [kUnityGfxRendererOpenGL U, kUnityGfxRendererD3D11 U, kUnityGfxRendererNull U]"

text \<open>The plugin's own enumeration \<open>RenderEvents\<close>.\<close>

definition kOsvrEventID_Render :: int where
  "kOsvrEventID_Render = 0"

definition kOsvrEventID_Shutdown :: int where
  "kOsvrEventID_Shutdown = 1"

text \<open>\<open>RenderManager::OpenStatus\<close>: the plugin names only \<open>FAILURE\<close>.\<close>

datatype OpenStatus = FAILURE | OtherOpenStatus

record OSVR_ViewportDescription =
  left :: real
  lower :: real
  width :: real
  height :: real

text \<open>Projection and pose are passed along and never inspected.\<close>

datatype OSVR_ProjectionMatrix = ProjectionMatrix "real list"
datatype OSVR_Pose3 = Pose3 "real list" "real list"

record GraphicsLibraryD3D11 =
  device :: address
  d3d_context :: address

record GraphicsLibrary =
  D3D11_library :: "GraphicsLibraryD3D11 ptr"

record RenderInfo =
  library_of :: GraphicsLibrary
  viewport :: OSVR_ViewportDescription
  pose :: OSVR_Pose3
  projection :: OSVR_ProjectionMatrix

record RenderBufferD3D11 =
  colorBuffer :: address
  colorBufferView :: address

record RenderBufferOpenGL =
  colorBufferName :: GLuint

record RenderBuffer =
  D3D11 :: "RenderBufferD3D11 ptr"
  OpenGL :: "RenderBufferOpenGL ptr"

datatype DXGI_FORMAT = DXGI_FORMAT_UNKNOWN | DXGI_FORMAT_R8G8B8A8_UNORM | DXGI_FORMAT_R32G32B32A32_FLOAT
datatype D3D11_USAGE = D3D11_USAGE_DEFAULT
datatype D3D11_BIND_FLAG = D3D11_BIND_RENDER_TARGET | D3D11_BIND_SHADER_RESOURCE
datatype D3D11_RTV_DIMENSION = D3D11_RTV_DIMENSION_UNKNOWN | D3D11_RTV_DIMENSION_TEXTURE2D

text \<open>The bitwise or of distinct flag bits is the set of the flags.\<close>

record D3D11_TEXTURE2D_DESC =
  Width :: "32 word"
  Height :: "32 word"
  MipLevels :: nat
  ArraySize :: nat
  Format :: DXGI_FORMAT
  SampleDesc_Count :: nat
  SampleDesc_Quality :: nat
  Usage :: D3D11_USAGE
  BindFlags :: "D3D11_BIND_FLAG set"
  CPUAccessFlags :: nat
  MiscFlags :: nat

record D3D11_RENDER_TARGET_VIEW_DESC =
  rtv_Format :: DXGI_FORMAT
  ViewDimension :: D3D11_RTV_DIMENSION
  Texture2D_MipSlice :: nat

text \<open>\<open>memset(&textureDesc, 0, sizeof(textureDesc))\<close>; also the static initial value.\<close>

definition zero_textureDesc :: D3D11_TEXTURE2D_DESC where
  "zero_textureDesc =
     \<lparr>Width = 0, Height = 0, MipLevels = 0, ArraySize = 0, Format = DXGI_FORMAT_UNKNOWN,
      SampleDesc_Count = 0, SampleDesc_Quality = 0, Usage = D3D11_USAGE_DEFAULT,
      BindFlags = {}, CPUAccessFlags = 0, MiscFlags = 0\<rparr>"

definition zero_renderTargetViewDesc :: D3D11_RENDER_TARGET_VIEW_DESC where
  "zero_renderTargetViewDesc =
     \<lparr>rtv_Format = DXGI_FORMAT_UNKNOWN, ViewDimension = D3D11_RTV_DIMENSION_UNKNOWN,
      Texture2D_MipSlice = 0\<rparr>"

subsection \<open>Calls to the collaborators\<close>

text \<open>
  One event per call the plugin makes outside itself, with the arguments that the
  plugin computes. \<open>PresentRenderBuffers\<close> carries the vertical-flip argument as
  an option: \<open>None\<close> when the call passes no second argument. An OpenGL call is
  its name and its numeric arguments (object names and sizes; enumerators are part of
  the name). \<open>E_DebugLog\<close> is a call of the installed debug sink. The two
  \<open>Call_\<close> events record that \<open>OnGraphicsDeviceEvent\<close> entered a backend
  handler.
\<close>

datatype event =
    E_DebugLog string
  | Call_DoEventGraphicsDeviceOpenGL UnityGfxDeviceEventType
  | Call_DoEventGraphicsDeviceD3D11 UnityGfxDeviceEventType
  | E_GetRenderer
  | E_GetDevice
  | E_GetImmediateContext address
  | E_createRenderManager OSVR_ClientContext string GraphicsLibrary
  | E_doingOkay
  | E_OpenDisplay
  | E_GetRenderInfo
  | E_delete_RenderManager nat
  | E_PresentRenderBuffers "RenderBuffer list" "bool option"
  | E_osvrClientUpdate OSVR_ClientContext
  | E_CreateTexture2D address D3D11_TEXTURE2D_DESC
  | E_CreateRenderTargetView address address D3D11_RENDER_TARGET_VIEW_DESC
  | E_OMSetRenderTargets address address
  | E_CopyResource address address address
  | E_glewInit
  | E_gl string "int list"
  | E_OSVR_Projection_to_OpenGL OSVR_ProjectionMatrix
  | E_OSVR_PoseState_to_OpenGL OSVR_Pose3

text \<open>
  What the collaborators answer during one entry-point call. \<open>ret_GetRenderInfo\<close>,
  \<open>ret_glGenRenderbuffers\<close> and \<open>ret_glCheckFramebufferStatus\<close> are
  asked more than once in a call and are indexed: by the number of the call, and for
  the framebuffer status by the eye being rendered. \<open>None\<close> for the two Direct3D
  creation calls is a failed \<open>HRESULT\<close>; \<open>None\<close> for
  \<open>createRenderManager\<close> is a null result.
\<close>

record host =
  ret_GetRenderer :: int
  ret_GetDevice :: address
  ret_GetImmediateContext :: address
  ret_createRenderManager :: "nat option"
  ret_doingOkay :: bool
  ret_OpenDisplay :: OpenStatus
  ret_GetRenderInfo :: "nat \<Rightarrow> RenderInfo list"
  ret_PresentRenderBuffers :: bool
  ret_CreateTexture2D :: "address option"
  ret_CreateRenderTargetView :: "address option"
  ret_glewInit :: bool
  ret_glGenFramebuffers :: GLuint
  ret_glGenRenderbuffers :: "nat \<Rightarrow> GLuint"
  ret_glCheckFramebufferStatus :: "nat \<Rightarrow> bool"

subsection \<open>The globals\<close>

record plugin_state =
  s_DeviceType :: int
  render :: "nat ptr"
  clientContext :: OSVR_ClientContext
  renderBuffers :: "RenderBuffer list"
  renderInfo :: "RenderInfo list"
  library :: GraphicsLibrary
  leftEyeTexturePtr :: address
  rightEyeTexturePtr :: address
  textureDesc :: D3D11_TEXTURE2D_DESC
  frameBuffer :: GLuint
  debugLog :: address
  trace :: "event list"

text \<open>
  The static initial values, after the load of the plugin's image. The function
  pointer \<open>debugLog\<close> is an address, null (0) until \<open>LinkDebug\<close> sets it.
\<close>

definition initial_state :: "UnityGfxRenderer \<Rightarrow> plugin_state" where
  "initial_state U =
     \<lparr>s_DeviceType = kUnityGfxRendererNull U, render = nullptr, clientContext = 0,
      renderBuffers = [], renderInfo = [], library = \<lparr>D3D11_library = nullptr\<rparr>,
      leftEyeTexturePtr = 0, rightEyeTexturePtr = 0, textureDesc = zero_textureDesc,
      frameBuffer = 0, debugLog = 0, trace = []\<rparr>"

definition emit :: "event \<Rightarrow> plugin_state \<Rightarrow> plugin_state" where
  "emit e s = s\<lparr>trace := trace s @ [e]\<rparr>"

definition LinkDebug :: "address \<Rightarrow> plugin_state \<Rightarrow> plugin_state" where
  "LinkDebug d s = s\<lparr>debugLog := d\<rparr>"

text \<open>\<open>if (debugLog) debugLog(str)\<close>.\<close>

definition DebugLog :: "string \<Rightarrow> plugin_state \<Rightarrow> plugin_state" where
  "DebugLog str s = (if debugLog s \<noteq> 0 then emit (E_DebugLog str) s else s)"

text \<open>The events a call added: the trace of the state after it, less the trace before.\<close>

definition events_since :: "plugin_state \<Rightarrow> plugin_state \<Rightarrow> event list" where
  "events_since s s' = drop (length (trace s)) (trace s')"

text \<open>\<open>delete render\<close>: nothing on a null pointer; the pointer is not cleared.\<close>

definition delete_render :: "plugin_state \<Rightarrow> fault + plugin_state" where
  "delete_render s = (case render s of
      nullptr \<Rightarrow> Inr s
    | Valid m \<Rightarrow> Inr (emit (E_delete_RenderManager m) (s\<lparr>render := Deleted m\<rparr>))
    | Deleted m \<Rightarrow> Inl DoubleFree
    | Unset \<Rightarrow> Inl UninitialisedRead)"

text \<open>\<open>renderInfo = render->GetRenderInfo()\<close>, the \<open>k\<close>-th such call of the entry point.\<close>

definition fetch_RenderInfo :: "host \<Rightarrow> nat \<Rightarrow> plugin_state \<Rightarrow> fault + plugin_state" where
  "fetch_RenderInfo w k s =
     and_then (deref (render s))
       (\<lambda>m. Inr ((emit E_GetRenderInfo s)\<lparr>renderInfo := ret_GetRenderInfo w k\<rparr>))"

subsection \<open>Graphics device events\<close>

definition DoEventGraphicsDeviceOpenGL ::
  "UnityGfxRenderer \<Rightarrow> UnityGfxDeviceEventType \<Rightarrow> plugin_state \<Rightarrow> plugin_state" where
  "DoEventGraphicsDeviceOpenGL U eventType s0 =
     (let s = emit (Call_DoEventGraphicsDeviceOpenGL eventType) s0
      in if eventType = kUnityGfxDeviceEventInitialize then
           (if s_DeviceType s = kUnityGfxRendererOpenGL U
            then DebugLog ''OpenGL Initialize Event'' s else s)
         else if eventType = kUnityGfxDeviceEventShutdown then
           (if s_DeviceType s = kUnityGfxRendererOpenGL U
            then DebugLog ''OpenGL Shutdown Event'' s else s)
         else s)"

definition DoEventGraphicsDeviceD3D11 ::
  "host \<Rightarrow> UnityGfxDeviceEventType \<Rightarrow> plugin_state \<Rightarrow> fault + plugin_state" where
  "DoEventGraphicsDeviceD3D11 w eventType s0 =
     (let s = emit (Call_DoEventGraphicsDeviceD3D11 eventType) s0
      in if eventType = kUnityGfxDeviceEventInitialize then
           (let s1 = emit E_GetDevice s;
                s2 = emit (E_GetImmediateContext (ret_GetDevice w)) s1;
                s3 = s2\<lparr>library := \<lparr>D3D11_library =
                        Valid \<lparr>device = ret_GetDevice w,
                               d3d_context = ret_GetImmediateContext w\<rparr>\<rparr>\<rparr>
            in Inr (DebugLog
                 ''[OSVR Rendering Plugin] Passed Unity device/context to RenderManager library.'' s3))
         else if eventType = kUnityGfxDeviceEventShutdown then
           delete_render
             (DebugLog ''[OSVR Rendering Plugin] Close the Renderer interface cleanly..'' s)
         else Inr s)"

text \<open>
  \<open>currentDeviceType\<close> is read at entry; the \<open>Initialize\<close> case overwrites
  it with the renderer just queried, the \<open>Shutdown\<close> case resets only the global.
\<close>

definition OnGraphicsDeviceEvent ::
  "UnityGfxRenderer \<Rightarrow> host \<Rightarrow> UnityGfxDeviceEventType \<Rightarrow> plugin_state \<Rightarrow> fault + plugin_state" where
  "OnGraphicsDeviceEvent U w eventType s =
     (let currentDeviceType0 = s_DeviceType s;
          (s1, currentDeviceType) =
            (case eventType of
               kUnityGfxDeviceEventInitialize \<Rightarrow>
                 (let sa = DebugLog (''[OSVR Rendering Plugin] OnGraphicsDeviceEvent(Initialize).'' @ [CHR 0x0A]) s;
                      sb = (emit E_GetRenderer sa)\<lparr>s_DeviceType := ret_GetRenderer w\<rparr>
                  in (sb, s_DeviceType sb))
             | kUnityGfxDeviceEventShutdown \<Rightarrow>
                 (let sa = DebugLog (''[OSVR Rendering Plugin] OnGraphicsDeviceEvent(Shutdown).'' @ [CHR 0x0A]) s
                  in (sa\<lparr>s_DeviceType := kUnityGfxRendererNull U\<rparr>, currentDeviceType0))
             | kUnityGfxDeviceEventBeforeReset \<Rightarrow>
                 (DebugLog (''[OSVR Rendering Plugin] OnGraphicsDeviceEvent(BeforeReset).'' @ [CHR 0x0A]) s,
                  currentDeviceType0)
             | kUnityGfxDeviceEventAfterReset \<Rightarrow>
                 (DebugLog (''[OSVR Rendering Plugin] OnGraphicsDeviceEvent(AfterReset).'' @ [CHR 0x0A]) s,
                  currentDeviceType0));
          s2 = (if currentDeviceType = kUnityGfxRendererOpenGL U
                then DoEventGraphicsDeviceOpenGL U eventType s1 else s1)
      in if currentDeviceType = kUnityGfxRendererD3D11 U
         then DoEventGraphicsDeviceD3D11 w eventType s2 else Inr s2)"

subsection \<open>The render-manager session\<close>

text \<open>
  \<open>render == nullptr || !render->doingOkay()\<close> asks \<open>doingOkay\<close> only of a
  manager that exists. Both failures return the one code \<open>OSVR_RETURN_FAILURE\<close>;
  they differ in the line they log and in the calls made before.
\<close>

definition CreateRenderManagerFromUnity ::
  "host \<Rightarrow> OSVR_ClientContext \<Rightarrow> plugin_state \<Rightarrow> plugin_state \<times> OSVR_ReturnCode" where
  "CreateRenderManagerFromUnity w ctx s =
     (let s1 = s\<lparr>clientContext := ctx\<rparr>;
          s2 = (emit (E_createRenderManager ctx ''Direct3D11'' (library s1)) s1)
                 \<lparr>render := (case ret_createRenderManager w of None \<Rightarrow> nullptr | Some m \<Rightarrow> Valid m)\<rparr>
      in if render s2 = nullptr then
           (DebugLog ''[OSVR Rendering Plugin] Could not create RenderManager'' s2, OSVR_RETURN_FAILURE)
         else
           (let s3 = emit E_doingOkay s2
            in if \<not> ret_doingOkay w then
                 (DebugLog ''[OSVR Rendering Plugin] Could not create RenderManager'' s3, OSVR_RETURN_FAILURE)
               else
                 (let s4 = emit E_OpenDisplay s3
                  in if ret_OpenDisplay w = FAILURE then
                       (DebugLog ''[OSVR Rendering Plugin] Could not open display'' s4, OSVR_RETURN_FAILURE)
                     else
                       (let s5 = (emit E_GetRenderInfo s4)\<lparr>renderInfo := ret_GetRenderInfo w 0\<rparr>
                        in (DebugLog ''[OSVR Rendering Plugin] Success!'' s5, OSVR_RETURN_SUCCESS)))))"

definition GetViewport :: "host \<Rightarrow> int \<Rightarrow> plugin_state \<Rightarrow> fault + plugin_state \<times> OSVR_ViewportDescription" where
  "GetViewport w eye s =
     and_then (fetch_RenderInfo w 0 s)
       (\<lambda>s1. and_then (at_index (renderInfo s1) eye) (\<lambda>info. Inr (s1, viewport info)))"

subsection \<open>Shutdown\<close>

text \<open>
  The body of the loop of the OpenGL case, for index \<open>i\<close>: the color texture of
  buffer \<open>i\<close> is deleted, then the buffer's \<open>RenderBufferOpenGL\<close> object; the
  vector keeps the dangling pointer.
\<close>

definition Shutdown_OpenGL_buffer :: "nat \<Rightarrow> plugin_state \<Rightarrow> fault + plugin_state" where
  "Shutdown_OpenGL_buffer i s =
     and_then (at_index (renderBuffers s) (int i))
       (\<lambda>rb. and_then (deref (OpenGL rb))
          (\<lambda>b. let s1 = emit (E_gl ''glDeleteTextures'' [1, uint (colorBufferName b)]) s
               in Inr (s1\<lparr>renderBuffers := (renderBuffers s1)[i := rb\<lparr>OpenGL := Deleted b\<rparr>]\<rparr>)))"

definition Shutdown :: "UnityGfxRenderer \<Rightarrow> plugin_state \<Rightarrow> fault + plugin_state" where
  "Shutdown U s0 =
     (let s = DebugLog ''[OSVR Rendering Plugin] Shutdown.'' s0
      in if s_DeviceType s = kUnityGfxRendererD3D11 U then
           (let s1 = s\<lparr>rightEyeTexturePtr := 0\<rparr>;
                s2 = s1\<lparr>leftEyeTexturePtr := 0\<rparr>;
                s3 = DebugLog ''[OSVR Rendering Plugin] Deleting RenderManager.'' s2
            in and_then (delete_render s3)
                 (\<lambda>s4. Inr (DebugLog ''[OSVR Rendering Plugin] Shut it down.'' s4)))
         else if s_DeviceType s = kUnityGfxRendererOpenGL U then
           (let s1 = emit (E_gl ''glDeleteFramebuffers'' [1, uint (frameBuffer s)]) s
            in for_each [0 ..< length (renderInfo s1)] Shutdown_OpenGL_buffer s1)
         else Inr (DebugLog ''Device type not supported.'' s))"

subsection \<open>Construction of the per-eye buffers\<close>

text \<open>
  The OpenGL construction. The two branches on \<open>eye == 0\<close> that create the color
  buffer, and the two that create the depth buffer, are the same statements up to the
  names of their locals; each pair is one sequence here. The new buffer is pushed
  before \<open>renderInfo[eye]\<close> is read. A failed \<open>glewInit\<close> is logged and the
  function goes on.
\<close>

definition ConstructBuffersOpenGL :: "host \<Rightarrow> int \<Rightarrow> plugin_state \<Rightarrow> fault + plugin_state" where
  "ConstructBuffersOpenGL w eye s0 =
     (let s1 = emit E_glewInit s0;
          s2 = (if \<not> ret_glewInit w then DebugLog ''glewInit failed, aborting.'' s1 else s1);
          s3 = emit (E_osvrClientUpdate (clientContext s2)) s2
      in and_then (fetch_RenderInfo w 0 s3) (\<lambda>s4.
         let s5 = (if eye = 0 then
                     (let sa = (emit (E_gl ''glGenFramebuffers'' [1]) s4)
                                 \<lparr>frameBuffer := ret_glGenFramebuffers w\<rparr>
                      in emit (E_gl ''glBindFramebuffer'' [uint (frameBuffer sa)]) sa)
                   else s4);
             eyeColorBuffer = ret_glGenRenderbuffers w 0;
             s6 = emit (E_gl ''glGenRenderbuffers'' [1]) s5;
             rb = \<lparr>D3D11 = Unset, OpenGL = Valid \<lparr>colorBufferName = eyeColorBuffer\<rparr>\<rparr>;
             s7 = s6\<lparr>renderBuffers := renderBuffers s6 @ [rb]\<rparr>;
             s8 = emit (E_gl ''glBindTexture'' [uint eyeColorBuffer]) s7
         in and_then (at_index (renderInfo s8) eye) (\<lambda>info.
            and_then (double_to_int (width (viewport info))) (\<lambda>wd.
            and_then (double_to_int (height (viewport info))) (\<lambda>ht.
            let s9 = emit (E_gl ''glTexImage2D'' [0, wd, ht, 0]) s8;
                s10 = emit (E_gl ''glTexParameteri GL_TEXTURE_MAG_FILTER GL_LINEAR'' []) s9;
                s11 = emit (E_gl ''glTexParameteri GL_TEXTURE_MIN_FILTER GL_LINEAR'' []) s10;
                s12 = emit (E_gl ''glTexParameteri GL_TEXTURE_WRAP_S GL_CLAMP_TO_EDGE'' []) s11;
                s13 = emit (E_gl ''glTexParameteri GL_TEXTURE_WRAP_T GL_CLAMP_TO_EDGE'' []) s12;
                eyeDepthBuffer = ret_glGenRenderbuffers w 1;
                s14 = emit (E_gl ''glGenRenderbuffers'' [1]) s13;
                s15 = emit (E_gl ''glBindRenderbuffer'' [uint eyeDepthBuffer]) s14
            in Inr (emit (E_gl ''glRenderbufferStorage GL_DEPTH_COMPONENT'' [wd, ht]) s15))))))"

text \<open>
  The Direct3D 11 construction. \<open>unsigned width = static_cast<int>(...)\<close> converts the
  truncated value to 32 bits without sign. The buffer is pushed at the end of
  \<open>renderBuffers\<close>, after both creation calls succeeded.
\<close>

definition ConstructBuffersD3D11 ::
  "host \<Rightarrow> int \<Rightarrow> plugin_state \<Rightarrow> fault + plugin_state \<times> OSVR_ReturnCode" where
  "ConstructBuffersD3D11 w eye s0 =
     (let s1 = DebugLog ''[OSVR Rendering Plugin] ConstructBuffersD3D11'' s0
      in and_then (fetch_RenderInfo w 0 s1) (\<lambda>s2.
         and_then (at_index (renderInfo s2) eye) (\<lambda>info.
         and_then (double_to_int (width (viewport info))) (\<lambda>wd.
         and_then (double_to_int (height (viewport info))) (\<lambda>ht.
         let s3 = s2\<lparr>textureDesc := zero_textureDesc
                       \<lparr>Width := word_of_int wd, Height := word_of_int ht, MipLevels := 1,
                        ArraySize := 1, Format := DXGI_FORMAT_R8G8B8A8_UNORM,
                        SampleDesc_Count := 1, SampleDesc_Quality := 0,
                        Usage := D3D11_USAGE_DEFAULT,
                        BindFlags := {D3D11_BIND_RENDER_TARGET} \<union> {D3D11_BIND_SHADER_RESOURCE},
                        CPUAccessFlags := 0, MiscFlags := 0\<rparr>\<rparr>
         in and_then (deref (D3D11_library (library_of info))) (\<lambda>lib.
            let s4 = emit (E_CreateTexture2D (device lib) (textureDesc s3)) s3
            in case ret_CreateTexture2D w of
                 None \<Rightarrow>
                   Inr (DebugLog (''[OSVR Rendering Plugin] Can'' @ [CHR 0x27] @ ''t create texture for eye'') s4,
                        OSVR_RETURN_FAILURE)
               | Some D3DTexture \<Rightarrow>
                   (let renderTargetViewDesc = zero_renderTargetViewDesc
                          \<lparr>rtv_Format := DXGI_FORMAT_R8G8B8A8_UNORM,
                           ViewDimension := D3D11_RTV_DIMENSION_TEXTURE2D,
                           Texture2D_MipSlice := 0\<rparr>;
                        s5 = emit (E_CreateRenderTargetView (device lib) D3DTexture renderTargetViewDesc) s4
                    in case ret_CreateRenderTargetView w of
                         None \<Rightarrow>
                           Inr (DebugLog ''[OSVR Rendering Plugin] Could not create render target for eye'' s5,
                                OSVR_RETURN_FAILURE)
                       | Some renderTargetView \<Rightarrow>
                           (let rbD3D = \<lparr>colorBuffer = D3DTexture, colorBufferView = renderTargetView\<rparr>;
                                rb = \<lparr>D3D11 = Valid rbD3D, OpenGL = Unset\<rparr>
                            in Inr (s5\<lparr>renderBuffers := renderBuffers s5 @ [rb]\<rparr>,
                                    OSVR_RETURN_SUCCESS)))))))))"

text \<open>
  The switch of \<open>SetColorBufferFromUnity\<close> drops what \<open>ConstructBuffersD3D11\<close>
  returns. An eye other than 0 is the right eye.
\<close>

definition SetColorBufferFromUnity ::
  "UnityGfxRenderer \<Rightarrow> host \<Rightarrow> address \<Rightarrow> int \<Rightarrow> plugin_state \<Rightarrow> fault + plugin_state \<times> OSVR_ReturnCode" where
  "SetColorBufferFromUnity U w texturePtr eye s0 =
     (if s_DeviceType s0 = - 1 then Inr (s0, OSVR_RETURN_FAILURE)
      else
        (let s1 = DebugLog ''[OSVR Rendering Plugin] SetColorBufferFromUnity'' s0;
             s2 = (if eye = 0 then s1\<lparr>leftEyeTexturePtr := texturePtr\<rparr>
                   else s1\<lparr>rightEyeTexturePtr := texturePtr\<rparr>)
         in if s_DeviceType s2 = kUnityGfxRendererD3D11 U then
              and_then (ConstructBuffersD3D11 w eye s2) (\<lambda>(s3, discarded). Inr (s3, OSVR_RETURN_SUCCESS))
            else if s_DeviceType s2 = kUnityGfxRendererOpenGL U then
              and_then (ConstructBuffersOpenGL w eye s2) (\<lambda>s3. Inr (s3, OSVR_RETURN_SUCCESS))
            else Inr (DebugLog ''Device type not supported.'' s2, OSVR_RETURN_FAILURE)))"

subsection \<open>The render tick\<close>

definition RenderViewD3D11 :: "RenderInfo \<Rightarrow> address \<Rightarrow> int \<Rightarrow> plugin_state \<Rightarrow> fault + plugin_state" where
  "RenderViewD3D11 info renderTargetView eyeIndex s =
     and_then (deref (D3D11_library (library_of info))) (\<lambda>lib.
       let ctx = d3d_context lib;
           s1 = emit (E_OMSetRenderTargets ctx renderTargetView) s;
           d3dtex = (if eyeIndex = 0 then leftEyeTexturePtr s1 else rightEyeTexturePtr s1)
       in and_then (at_index (renderBuffers s1) eyeIndex) (\<lambda>rb.
          and_then (deref (D3D11 rb)) (\<lambda>b.
            Inr (emit (E_CopyResource ctx (colorBuffer b) d3dtex) s1))))"

text \<open>
  The local \<open>glTex\<close> of \<open>RenderViewOpenGL\<close> is computed and never used; the
  scene drawing after it is commented out in the source.
\<close>

definition RenderViewOpenGL ::
  "host \<Rightarrow> RenderInfo \<Rightarrow> GLuint \<Rightarrow> GLuint \<Rightarrow> int \<Rightarrow> plugin_state \<Rightarrow> fault + plugin_state" where
  "RenderViewOpenGL w info fb colorBuf eyeIndex s =
     (let s1 = emit (E_gl ''glBindFramebuffer'' [uint fb]) s;
          s2 = emit (E_gl ''glFramebufferTexture GL_COLOR_ATTACHMENT0'' [uint colorBuf, 0]) s1;
          s3 = emit (E_gl ''glDrawBuffers'' [1]) s2;
          s4 = emit (E_gl ''glCheckFramebufferStatus'' []) s3
      in if \<not> ret_glCheckFramebufferStatus w (nat eyeIndex) then
           Inr (DebugLog ''RenderView: Incomplete Framebuffer'' s4)
         else
           and_then (double_to_int (width (viewport info))) (\<lambda>wd.
           and_then (double_to_int (height (viewport info))) (\<lambda>ht.
           let s5 = emit (E_gl ''glViewport'' [0, 0, wd, ht]) s4;
               s6 = emit (E_OSVR_Projection_to_OpenGL (projection info)) s5;
               s7 = emit (E_gl ''glMatrixMode GL_PROJECTION'' []) s6;
               s8 = emit (E_gl ''glLoadIdentity'' []) s7;
               s9 = emit (E_gl ''glMultMatrixd projection'' []) s8;
               s10 = emit (E_OSVR_PoseState_to_OpenGL (pose info)) s9;
               s11 = emit (E_gl ''glMatrixMode GL_MODELVIEW'' []) s10;
               s12 = emit (E_gl ''glLoadIdentity'' []) s11;
               s13 = emit (E_gl ''glMultMatrixd modelView'' []) s12;
               s14 = emit (E_gl ''glClearColor'' [1, 0, 0, 1]) s13;
               s15 = emit (E_gl ''glClear GL_COLOR_BUFFER_BIT GL_DEPTH_BUFFER_BIT'' []) s14
           in and_then (at_index (renderBuffers s15) eyeIndex) (\<lambda>rb.
              and_then (deref (OpenGL rb)) (\<lambda>b.
              let s16 = emit (E_gl ''glBindTexture'' [uint (colorBufferName b)]) s15;
                  s17 = emit (E_gl ''glGetTexLevelParameteriv GL_TEXTURE_WIDTH'' [0]) s16
              in Inr (emit (E_gl ''glGetTexLevelParameteriv GL_TEXTURE_HEIGHT'' [0]) s17))))))"

text \<open>
  The bodies of the two loops \<open>for (size_t i = 0; i < renderInfo.size(); i++)\<close> of
  \<open>OnRenderEvent\<close>. Neither body assigns \<open>renderInfo\<close>, so the indices are
  those below its size at the start of the loop.
\<close>

definition OnRenderEvent_D3D11_eye :: "nat \<Rightarrow> plugin_state \<Rightarrow> fault + plugin_state" where
  "OnRenderEvent_D3D11_eye i s =
     and_then (at_index (renderInfo s) (int i)) (\<lambda>info.
     and_then (at_index (renderBuffers s) (int i)) (\<lambda>rb.
     and_then (deref (D3D11 rb)) (\<lambda>b.
       RenderViewD3D11 info (colorBufferView b) (int i) s)))"

definition OnRenderEvent_OpenGL_eye :: "host \<Rightarrow> nat \<Rightarrow> plugin_state \<Rightarrow> fault + plugin_state" where
  "OnRenderEvent_OpenGL_eye w i s =
     and_then (at_index (renderInfo s) (int i)) (\<lambda>info.
     and_then (at_index (renderBuffers s) (int i)) (\<lambda>rb.
     and_then (deref (OpenGL rb)) (\<lambda>b.
       RenderViewOpenGL w info (frameBuffer s) (colorBufferName b) (int i) s)))"

definition OnRenderEvent :: "UnityGfxRenderer \<Rightarrow> host \<Rightarrow> int \<Rightarrow> plugin_state \<Rightarrow> fault + plugin_state" where
  "OnRenderEvent U w eventID s =
     (if s_DeviceType s = - 1 then Inr s
      else if eventID = kOsvrEventID_Render then
        and_then (fetch_RenderInfo w 0 s) (\<lambda>s1.
          if s_DeviceType s1 = kUnityGfxRendererD3D11 U then
            and_then (for_each [0 ..< length (renderInfo s1)] OnRenderEvent_D3D11_eye s1) (\<lambda>s2.
            and_then (deref (render s2)) (\<lambda>m.
              let s3 = emit (E_PresentRenderBuffers (renderBuffers s2) (Some True)) s2
              in if \<not> ret_PresentRenderBuffers w then
                   Inr (DebugLog ''[OSVR Rendering Plugin] PresentRenderBuffers() returned false, maybe because it was asked to quit'' s3)
                 else Inr s3))
          else if s_DeviceType s1 = kUnityGfxRendererOpenGL U then
            and_then (fetch_RenderInfo w 1 s1) (\<lambda>s2.
            and_then (for_each [0 ..< length (renderInfo s2)] (OnRenderEvent_OpenGL_eye w) s2) (\<lambda>s3.
            and_then (deref (render s3)) (\<lambda>m.
              let s4 = emit (E_PresentRenderBuffers (renderBuffers s3) None) s3
              in if \<not> ret_PresentRenderBuffers w then
                   Inr (DebugLog ''PresentRenderBuffers() returned false, maybe because it was asked to quit'' s4)
                 else Inr s4)))
          else Inr s1)
      else if eventID = kOsvrEventID_Shutdown then Shutdown U s
      else Inr s)"

subsection \<open>Observations on traces and results\<close>

fun is_Present :: "event \<Rightarrow> bool" where
  "is_Present (E_PresentRenderBuffers bs flipY) = True"
| "is_Present e = False"

fun is_Call :: "event \<Rightarrow> bool" where
  "is_Call (Call_DoEventGraphicsDeviceOpenGL t) = True"
| "is_Call (Call_DoEventGraphicsDeviceD3D11 t) = True"
| "is_Call e = False"

text \<open>
  The three outcomes of \<open>CreateRenderManagerFromUnity\<close>, read off the state before
  the call and the pair it returns: the code returned, whether the display was opened
  and the render info fetched, and the line sent to the debug sink, which is sent
  exactly when a sink is installed.
\<close>

definition outcome_CreationFailed :: "plugin_state \<Rightarrow> plugin_state \<times> OSVR_ReturnCode \<Rightarrow> bool" where
  "outcome_CreationFailed s r =
     (snd r = OSVR_RETURN_FAILURE
      \<and> E_OpenDisplay \<notin> set (events_since s (fst r))
      \<and> E_GetRenderInfo \<notin> set (events_since s (fst r))
      \<and> renderInfo (fst r) = renderInfo s
      \<and> (E_DebugLog ''[OSVR Rendering Plugin] Could not create RenderManager''
            \<in> set (events_since s (fst r))) = (debugLog s \<noteq> 0))"

definition outcome_DisplayOpenFailed :: "plugin_state \<Rightarrow> plugin_state \<times> OSVR_ReturnCode \<Rightarrow> bool" where
  "outcome_DisplayOpenFailed s r =
     (snd r = OSVR_RETURN_FAILURE
      \<and> E_OpenDisplay \<in> set (events_since s (fst r))
      \<and> E_GetRenderInfo \<notin> set (events_since s (fst r))
      \<and> renderInfo (fst r) = renderInfo s
      \<and> (E_DebugLog ''[OSVR Rendering Plugin] Could not open display''
            \<in> set (events_since s (fst r))) = (debugLog s \<noteq> 0))"

definition outcome_Success :: "host \<Rightarrow> plugin_state \<Rightarrow> plugin_state \<times> OSVR_ReturnCode \<Rightarrow> bool" where
  "outcome_Success w s r =
     (snd r = OSVR_RETURN_SUCCESS
      \<and> E_OpenDisplay \<in> set (events_since s (fst r))
      \<and> E_GetRenderInfo \<in> set (events_since s (fst r))
      \<and> renderInfo (fst r) = ret_GetRenderInfo w 0)"

text \<open>
  The placement the specification states for a newly constructed buffer: at the
  position of \<open>renderBuffers\<close> that is the eye's index.
\<close>

definition registered_at_eye_position :: "int \<Rightarrow> RenderBuffer \<Rightarrow> plugin_state \<Rightarrow> bool" where
  "registered_at_eye_position eye rb s = (at_index (renderBuffers s) eye = Inr rb)"

fun is_gl_call :: "string \<Rightarrow> event \<Rightarrow> bool" where
  "is_gl_call n (E_gl m args) = (m = n)"
| "is_gl_call n e = False"

text \<open>
  The state in which \<open>SetColorBufferFromUnity\<close> reaches its switch: the call is
  logged and the host's texture is stored for the eye.
\<close>

definition texture_registered :: "address \<Rightarrow> int \<Rightarrow> plugin_state \<Rightarrow> plugin_state" where
  "texture_registered texturePtr eye s =
     (if eye = 0
      then (DebugLog ''[OSVR Rendering Plugin] SetColorBufferFromUnity'' s)\<lparr>leftEyeTexturePtr := texturePtr\<rparr>
      else (DebugLog ''[OSVR Rendering Plugin] SetColorBufferFromUnity'' s)\<lparr>rightEyeTexturePtr := texturePtr\<rparr>)"

text \<open>
  What the specification expects of a render tick for eye \<open>i\<close> on Direct3D 11: the
  eye's view is bound, and the host's texture for the eye is copied into the color
  buffer of the eye's render buffer. \<open>lib i\<close> is the graphics library that the
  render info of eye \<open>i\<close> holds and \<open>b i\<close> the Direct3D part of buffer \<open>i\<close>.
\<close>

definition expected_eye_copy ::
  "(nat \<Rightarrow> GraphicsLibraryD3D11) \<Rightarrow> (nat \<Rightarrow> RenderBufferD3D11) \<Rightarrow> plugin_state \<Rightarrow> nat \<Rightarrow> event list" where
  "expected_eye_copy lib b s i =
     [E_OMSetRenderTargets (d3d_context (lib i)) (colorBufferView (b i)),
      E_CopyResource (d3d_context (lib i)) (colorBuffer (b i))
        (if i = 0 then leftEyeTexturePtr s else rightEyeTexturePtr s)]"

text \<open>A step that only adds events, none of them a present call.\<close>

definition quiet_step :: "plugin_state \<Rightarrow> plugin_state \<Rightarrow> bool" where
  "quiet_step s s' = (\<exists>evs. trace s' = trace s @ evs \<and> filter is_Present evs = [])"

subsection \<open>A concrete host and session\<close>

text \<open>
  Renderer values as in Unity's header (OpenGL 0, Direct3D 11 2, the null device 4), a
  head-mounted display of two eyes of 960 by 1080 pixels, and a host on which every
  call succeeds.
\<close>

definition example_renderers :: UnityGfxRenderer where
  "example_renderers =
     \<lparr>kUnityGfxRendererOpenGL = 0, kUnityGfxRendererD3D11 = 2, kUnityGfxRendererNull = 4\<rparr>"

definition example_info :: "real \<Rightarrow> RenderInfo" where
  "example_info x =
     \<lparr>library_of = \<lparr>D3D11_library = Valid \<lparr>device = 100, d3d_context = 101\<rparr>\<rparr>,
      viewport = \<lparr>left = x, lower = 0, width = 960, height = 1080\<rparr>,
      pose = Pose3 [0, 0, 0] [0, 0, 0, 1],
      projection = ProjectionMatrix [- 1, 1, 1, - 1, 1 / 10, 100]\<rparr>"

definition example_host :: host where
  "example_host =
     \<lparr>ret_GetRenderer = 2, ret_GetDevice = 100, ret_GetImmediateContext = 101,
      ret_createRenderManager = Some 7, ret_doingOkay = True, ret_OpenDisplay = OtherOpenStatus,
      ret_GetRenderInfo = (\<lambda>k. [example_info 0, example_info 960]),
      ret_PresentRenderBuffers = True, ret_CreateTexture2D = Some 200,
      ret_CreateRenderTargetView = Some 300, ret_glewInit = True,
      ret_glGenFramebuffers = 1, ret_glGenRenderbuffers = (\<lambda>k. 2 + of_nat k),
      ret_glCheckFramebufferStatus = (\<lambda>k. True)\<rparr>"

text \<open>The same host when Direct3D hands out other handles, and when Unity runs on OpenGL.\<close>

definition example_host_right :: host where
  "example_host_right =
     example_host\<lparr>ret_CreateTexture2D := Some 201, ret_CreateRenderTargetView := Some 301,
                  ret_glGenRenderbuffers := (\<lambda>k. 4 + of_nat k)\<rparr>"

definition example_host_OpenGL :: host where
  "example_host_OpenGL = example_host\<lparr>ret_GetRenderer := 0\<rparr>"

text \<open>
  The plugin after the load, the \<open>Initialize\<close> device event, a successful
  \<open>CreateRenderManagerFromUnity\<close>, and (in \<open>example_session\<close>) the
  registration of the host's textures 1001 and 1002 for the eyes 0 and 1.
\<close>

definition example_created :: "host \<Rightarrow> fault + plugin_state" where
  "example_created w =
     and_then (OnGraphicsDeviceEvent example_renderers w kUnityGfxDeviceEventInitialize
                 (initial_state example_renderers))
       (\<lambda>s1. Inr (fst (CreateRenderManagerFromUnity w 5 s1)))"

definition example_session :: "fault + plugin_state" where
  "example_session =
     and_then (example_created example_host) (\<lambda>s1.
     and_then (SetColorBufferFromUnity example_renderers example_host 1001 0 s1) (\<lambda>r2.
     and_then (SetColorBufferFromUnity example_renderers example_host_right 1002 1 (fst r2)) (\<lambda>r3.
       Inr (fst r3))))"

definition example_session_OpenGL :: "fault + plugin_state" where
  "example_session_OpenGL =
     and_then (example_created example_host_OpenGL) (\<lambda>s1.
     and_then (SetColorBufferFromUnity example_renderers example_host_OpenGL 1001 0 s1) (\<lambda>r2.
     and_then (SetColorBufferFromUnity example_renderers example_host_OpenGL 1002 1 (fst r2)) (\<lambda>r3.
       Inr (fst r3))))"

definition example_host_again :: host where
  "example_host_again =
     example_host\<lparr>ret_CreateTexture2D := Some 202, ret_CreateRenderTargetView := Some 302\<rparr>"

definition example_host_no_texture :: host where
  "example_host_no_texture = example_host\<lparr>ret_CreateTexture2D := None\<rparr>"

definition example_host_OpenGL_again :: host where
  "example_host_OpenGL_again =
     example_host_OpenGL\<lparr>ret_glGenFramebuffers := 9, ret_glGenRenderbuffers := (\<lambda>k. 10 + of_nat k)\<rparr>"

definition example_host_D3D9 :: host where
  "example_host_D3D9 = example_host\<lparr>ret_GetRenderer := 1\<rparr>"

text \<open>The plugin after the load and a \<open>LinkDebug\<close> that installs the sink 900.\<close>

definition example_linked_state :: plugin_state where
  "example_linked_state = LinkDebug 900 (initial_state example_renderers)"

text \<open>The states themselves (the runs above do not fault).\<close>

definition example_created_state :: plugin_state where
  "example_created_state =
     (case example_created example_host of Inr s \<Rightarrow> s | Inl f \<Rightarrow> initial_state example_renderers)"

definition example_created_state_OpenGL :: plugin_state where
  "example_created_state_OpenGL =
     (case example_created example_host_OpenGL of Inr s \<Rightarrow> s | Inl f \<Rightarrow> initial_state example_renderers)"

definition example_session_state :: plugin_state where
  "example_session_state =
     (case example_session of Inr s \<Rightarrow> s | Inl f \<Rightarrow> initial_state example_renderers)"

definition example_session_state_OpenGL :: plugin_state where
  "example_session_state_OpenGL =
     (case example_session_OpenGL of Inr s \<Rightarrow> s | Inl f \<Rightarrow> initial_state example_renderers)"

text \<open>The Direct3D 11 session when only eye 0 is registered.\<close>

definition example_session_first_eye :: plugin_state where
  "example_session_first_eye =
     (case SetColorBufferFromUnity example_renderers example_host 1001 0 example_created_state of
        Inr r \<Rightarrow> fst r | Inl f \<Rightarrow> initial_state example_renderers)"

definition example_buffer :: "nat \<Rightarrow> RenderBufferD3D11" where
  "example_buffer i =
     (if i = 0 then \<lparr>colorBuffer = 200, colorBufferView = 300\<rparr>
      else \<lparr>colorBuffer = 201, colorBufferView = 301\<rparr>)"

definition example_library :: "nat \<Rightarrow> GraphicsLibraryD3D11" where
  "example_library i = \<lparr>device = 100, d3d_context = 101\<rparr>"

section \<open>Properties\<close>

subsection \<open>Basic facts\<close>

lemma and_then_Inl: "and_then (Inl f) k = Inl f"
  by (simp add: and_then_def)

lemma and_then_Inr: "and_then (Inr x) k = k x"
  by (simp add: and_then_def)

lemma and_then_eq_Inr: "and_then m k = Inr y \<longleftrightarrow> (\<exists>x. m = Inr x \<and> k x = Inr y)"
  by (cases m) (simp_all add: and_then_def)

lemmas primitive_defs =
  and_then_def deref_def at_index_def double_to_int_def emit_def DebugLog_def
  delete_render_def fetch_RenderInfo_def kOsvrEventID_Render_def kOsvrEventID_Shutdown_def
  zero_textureDesc_def zero_renderTargetViewDesc_def Let_def

lemmas entry_point_defs =
  OnGraphicsDeviceEvent_def DoEventGraphicsDeviceD3D11_def DoEventGraphicsDeviceOpenGL_def
  CreateRenderManagerFromUnity_def SetColorBufferFromUnity_def ConstructBuffersD3D11_def
  ConstructBuffersOpenGL_def OnRenderEvent_def OnRenderEvent_D3D11_eye_def
  OnRenderEvent_OpenGL_eye_def RenderViewD3D11_def RenderViewOpenGL_def Shutdown_def
  Shutdown_OpenGL_buffer_def

lemmas example_defs =
  example_renderers_def example_info_def example_host_def example_host_right_def
  example_host_OpenGL_def example_host_OpenGL_again_def example_host_again_def
  example_host_no_texture_def example_host_D3D9_def example_linked_state_def LinkDebug_def example_created_def example_session_def example_session_OpenGL_def
  example_created_state_def example_created_state_OpenGL_def example_session_state_def
  example_session_state_OpenGL_def example_buffer_def example_library_def initial_state_def

subsection \<open>Shutdown and what follows it\<close>

text \<open>
  C1. The specification says that after the render event \<open>Shutdown\<close> (event 1) the
  session pointer is null and a later render event \<open>Render\<close> (event 0) does
  nothing. In the Direct3D 11 session of two registered eyes, \<open>Shutdown\<close> deletes
  the render manager and leaves \<open>render\<close> pointing at it, leaves the device type
  at Direct3D 11, and the next \<open>Render\<close> event calls \<open>GetRenderInfo\<close> through
  the dangling pointer.
\<close>

theorem OnRenderEvent_Render_after_Shutdown_uses_deleted_manager:
  "map_sum id render
     (and_then example_session (OnRenderEvent example_renderers example_host kOsvrEventID_Shutdown))
     = Inr (Deleted 7)
   \<and> map_sum id s_DeviceType
     (and_then example_session (OnRenderEvent example_renderers example_host kOsvrEventID_Shutdown))
     = Inr (kUnityGfxRendererD3D11 example_renderers)
   \<and> and_then example_session (\<lambda>s.
       and_then (OnRenderEvent example_renderers example_host kOsvrEventID_Shutdown s)
         (OnRenderEvent example_renderers example_host kOsvrEventID_Render))
     = Inl UseAfterFree"
  by (simp add: example_defs entry_point_defs primitive_defs)

text \<open>
  C2. The specification says that the shutdown sequence run twice does not fault and
  leaves the backend kind at None. In the same session, \<open>Shutdown\<close> leaves the
  device type at Direct3D 11, a second \<open>Shutdown\<close> deletes the render manager a
  second time, and so does the device event \<open>Shutdown\<close> that follows a render
  event \<open>Shutdown\<close> (the order of a script's shutdown followed by the unload of
  the plugin).
\<close>

theorem Shutdown_twice_deletes_manager_twice:
  "and_then example_session (\<lambda>s.
       and_then (Shutdown example_renderers s) (Shutdown example_renderers))
     = Inl DoubleFree
   \<and> map_sum id s_DeviceType (and_then example_session (Shutdown example_renderers))
     = Inr (kUnityGfxRendererD3D11 example_renderers)
   \<and> and_then example_session (\<lambda>s.
       and_then (OnRenderEvent example_renderers example_host kOsvrEventID_Shutdown s)
         (OnGraphicsDeviceEvent example_renderers example_host kUnityGfxDeviceEventShutdown))
     = Inl DoubleFree"
  by (simp add: example_defs entry_point_defs primitive_defs)

subsection \<open>The render-manager session\<close>

text \<open>
  C3. \<open>CreateRenderManagerFromUnity\<close> has exactly one of three outcomes. When the
  constructed render manager is null or reports not-okay it returns the failure code
  without opening the display. When the manager is okay and the display fails to open
  it returns the failure code, having opened the display and without fetching the
  render info. Otherwise it fetches the render info and returns success. Each failure
  sends its own line to the debug sink, exactly when a sink is installed.
\<close>

theorem CreateRenderManagerFromUnity_three_outcomes:
  "(ret_createRenderManager w = None \<or> \<not> ret_doingOkay w \<longrightarrow>
      outcome_CreationFailed s (CreateRenderManagerFromUnity w ctx s)
      \<and> \<not> outcome_DisplayOpenFailed s (CreateRenderManagerFromUnity w ctx s)
      \<and> \<not> outcome_Success w s (CreateRenderManagerFromUnity w ctx s))
   \<and> (ret_createRenderManager w \<noteq> None \<and> ret_doingOkay w \<and> ret_OpenDisplay w = FAILURE \<longrightarrow>
      outcome_DisplayOpenFailed s (CreateRenderManagerFromUnity w ctx s)
      \<and> \<not> outcome_CreationFailed s (CreateRenderManagerFromUnity w ctx s)
      \<and> \<not> outcome_Success w s (CreateRenderManagerFromUnity w ctx s))
   \<and> (ret_createRenderManager w \<noteq> None \<and> ret_doingOkay w \<and> ret_OpenDisplay w \<noteq> FAILURE \<longrightarrow>
      outcome_Success w s (CreateRenderManagerFromUnity w ctx s)
      \<and> \<not> outcome_CreationFailed s (CreateRenderManagerFromUnity w ctx s)
      \<and> \<not> outcome_DisplayOpenFailed s (CreateRenderManagerFromUnity w ctx s))"
  by (cases "ret_createRenderManager w")
     (simp_all add: CreateRenderManagerFromUnity_def outcome_CreationFailed_def
        outcome_DisplayOpenFailed_def outcome_Success_def events_since_def emit_def DebugLog_def
        Let_def)

theorem CreateRenderManagerFromUnity_three_outcomes_witness:
  "outcome_Success example_host (initial_state example_renderers)
     (CreateRenderManagerFromUnity example_host 5 (initial_state example_renderers))
   \<and> outcome_CreationFailed (initial_state example_renderers)
     (CreateRenderManagerFromUnity (example_host\<lparr>ret_createRenderManager := None\<rparr>) 5
        (initial_state example_renderers))
   \<and> outcome_CreationFailed example_linked_state
     (CreateRenderManagerFromUnity (example_host\<lparr>ret_doingOkay := False\<rparr>) 5
        example_linked_state)
   \<and> outcome_DisplayOpenFailed (initial_state example_renderers)
     (CreateRenderManagerFromUnity (example_host\<lparr>ret_OpenDisplay := FAILURE\<rparr>) 5
        (initial_state example_renderers))
   \<and> outcome_DisplayOpenFailed example_linked_state
     (CreateRenderManagerFromUnity (example_host\<lparr>ret_OpenDisplay := FAILURE\<rparr>) 5
        example_linked_state)"
  using
    CreateRenderManagerFromUnity_three_outcomes
      [of example_host "initial_state example_renderers" 5]
    CreateRenderManagerFromUnity_three_outcomes
      [of "example_host\<lparr>ret_createRenderManager := None\<rparr>" "initial_state example_renderers" 5]
    CreateRenderManagerFromUnity_three_outcomes
      [of "example_host\<lparr>ret_doingOkay := False\<rparr>" example_linked_state 5]
    CreateRenderManagerFromUnity_three_outcomes
      [of "example_host\<lparr>ret_OpenDisplay := FAILURE\<rparr>" "initial_state example_renderers" 5]
    CreateRenderManagerFromUnity_three_outcomes
      [of "example_host\<lparr>ret_OpenDisplay := FAILURE\<rparr>" example_linked_state 5]
  by (simp add: example_host_def)

subsection \<open>Graphics device events\<close>

text \<open>
  C7. A \<open>BeforeReset\<close> or \<open>AfterReset\<close> device event returns and leaves the
  stored device type as it was; \<open>Initialize\<close> stores the renderer that Unity
  reports and \<open>Shutdown\<close> stores the null renderer. When the renderer the event is
  dispatched on is neither OpenGL nor Direct3D 11, no backend handler is entered: for
  \<open>Shutdown\<close> and the two reset events that renderer is the stored one, for
  \<open>Initialize\<close> it is the one Unity reports.
\<close>

theorem OnGraphicsDeviceEvent_reset_keeps_kind_unknown_kind_no_handler:
  "(eventType = kUnityGfxDeviceEventBeforeReset \<or> eventType = kUnityGfxDeviceEventAfterReset \<longrightarrow>
      (\<exists>s'. OnGraphicsDeviceEvent U w eventType s = Inr s' \<and> s_DeviceType s' = s_DeviceType s))
   \<and> (\<forall>s'. OnGraphicsDeviceEvent U w kUnityGfxDeviceEventInitialize s = Inr s' \<longrightarrow>
         s_DeviceType s' = ret_GetRenderer w)
   \<and> (\<forall>s'. OnGraphicsDeviceEvent U w kUnityGfxDeviceEventShutdown s = Inr s' \<longrightarrow>
         s_DeviceType s' = kUnityGfxRendererNull U)
   \<and> (eventType \<noteq> kUnityGfxDeviceEventInitialize
        \<and> s_DeviceType s \<noteq> kUnityGfxRendererOpenGL U \<and> s_DeviceType s \<noteq> kUnityGfxRendererD3D11 U \<longrightarrow>
      (\<exists>s'. OnGraphicsDeviceEvent U w eventType s = Inr s' \<and> filter is_Call (events_since s s') = []))
   \<and> (ret_GetRenderer w \<noteq> kUnityGfxRendererOpenGL U \<and> ret_GetRenderer w \<noteq> kUnityGfxRendererD3D11 U \<longrightarrow>
      (\<exists>s'. OnGraphicsDeviceEvent U w kUnityGfxDeviceEventInitialize s = Inr s'
            \<and> filter is_Call (events_since s s') = []))"
  by (cases eventType)
     (auto simp: OnGraphicsDeviceEvent_def DoEventGraphicsDeviceD3D11_def
        DoEventGraphicsDeviceOpenGL_def events_since_def emit_def DebugLog_def delete_render_def
        Let_def split: ptr.splits if_splits)

theorem OnGraphicsDeviceEvent_reset_keeps_kind_unknown_kind_no_handler_witness:
  "(\<exists>s'. OnGraphicsDeviceEvent example_renderers example_host kUnityGfxDeviceEventBeforeReset
            example_session_state = Inr s'
        \<and> s_DeviceType s' = s_DeviceType example_session_state)
   \<and> (\<exists>s'. OnGraphicsDeviceEvent example_renderers example_host kUnityGfxDeviceEventAfterReset
            (initial_state example_renderers) = Inr s'
        \<and> filter is_Call (events_since (initial_state example_renderers) s') = [])
   \<and> (\<exists>s'. OnGraphicsDeviceEvent example_renderers example_host_D3D9 kUnityGfxDeviceEventInitialize
            (initial_state example_renderers) = Inr s'
        \<and> filter is_Call (events_since (initial_state example_renderers) s') = [])"
  using
    OnGraphicsDeviceEvent_reset_keeps_kind_unknown_kind_no_handler
      [of kUnityGfxDeviceEventBeforeReset example_renderers example_host example_session_state]
    OnGraphicsDeviceEvent_reset_keeps_kind_unknown_kind_no_handler
      [of kUnityGfxDeviceEventAfterReset example_renderers example_host "initial_state example_renderers"]
    OnGraphicsDeviceEvent_reset_keeps_kind_unknown_kind_no_handler
      [of kUnityGfxDeviceEventInitialize example_renderers example_host_D3D9 "initial_state example_renderers"]
  by (simp add: example_renderers_def example_host_D3D9_def example_host_def initial_state_def)

text \<open>
  C10. The handler of a \<open>Shutdown\<close> device event is chosen by the device type stored
  when the event arrived: with Direct3D 11 stored, the Direct3D handler is entered and
  deletes the render manager although the stored type is already the null renderer;
  with OpenGL stored, the OpenGL handler is entered. The handler of an
  \<open>Initialize\<close> event is chosen by the renderer Unity just reported, whatever was
  stored before.
\<close>

theorem OnGraphicsDeviceEvent_dispatches_on_entry_kind:
  assumes "kUnityGfxRendererOpenGL U \<noteq> kUnityGfxRendererD3D11 U"
  shows
  "(s_DeviceType s = kUnityGfxRendererD3D11 U \<and> render s = Valid m \<longrightarrow>
      (\<exists>s'. OnGraphicsDeviceEvent U w kUnityGfxDeviceEventShutdown s = Inr s'
         \<and> s_DeviceType s' = kUnityGfxRendererNull U
         \<and> render s' = Deleted m
         \<and> E_delete_RenderManager m \<in> set (events_since s s')
         \<and> filter is_Call (events_since s s') = [Call_DoEventGraphicsDeviceD3D11 kUnityGfxDeviceEventShutdown]))
   \<and> (s_DeviceType s = kUnityGfxRendererOpenGL U \<longrightarrow>
      (\<exists>s'. OnGraphicsDeviceEvent U w kUnityGfxDeviceEventShutdown s = Inr s'
         \<and> s_DeviceType s' = kUnityGfxRendererNull U
         \<and> filter is_Call (events_since s s') = [Call_DoEventGraphicsDeviceOpenGL kUnityGfxDeviceEventShutdown]))
   \<and> (ret_GetRenderer w = kUnityGfxRendererD3D11 U \<longrightarrow>
      (\<exists>s'. OnGraphicsDeviceEvent U w kUnityGfxDeviceEventInitialize s = Inr s'
         \<and> s_DeviceType s' = kUnityGfxRendererD3D11 U
         \<and> filter is_Call (events_since s s') = [Call_DoEventGraphicsDeviceD3D11 kUnityGfxDeviceEventInitialize]))
   \<and> (ret_GetRenderer w = kUnityGfxRendererOpenGL U \<longrightarrow>
      (\<exists>s'. OnGraphicsDeviceEvent U w kUnityGfxDeviceEventInitialize s = Inr s'
         \<and> s_DeviceType s' = kUnityGfxRendererOpenGL U
         \<and> filter is_Call (events_since s s') = [Call_DoEventGraphicsDeviceOpenGL kUnityGfxDeviceEventInitialize]))"
  using assms
  by (auto simp: OnGraphicsDeviceEvent_def DoEventGraphicsDeviceD3D11_def
        DoEventGraphicsDeviceOpenGL_def events_since_def emit_def DebugLog_def delete_render_def
        Let_def)

lemma example_session_state_fields:
  "s_DeviceType example_session_state = 2"
  "render example_session_state = Valid 7"
  "leftEyeTexturePtr example_session_state = 1001"
  "rightEyeTexturePtr example_session_state = 1002"
  "renderBuffers example_session_state =
     [\<lparr>D3D11 = Valid \<lparr>colorBuffer = 200, colorBufferView = 300\<rparr>, OpenGL = Unset\<rparr>,
      \<lparr>D3D11 = Valid \<lparr>colorBuffer = 201, colorBufferView = 301\<rparr>, OpenGL = Unset\<rparr>]"
  by (simp_all add: example_defs entry_point_defs primitive_defs)

lemma example_session_state_OpenGL_fields:
  "s_DeviceType example_session_state_OpenGL = 0"
  "render example_session_state_OpenGL = Valid 7"
  "frameBuffer example_session_state_OpenGL = 1"
  "renderBuffers example_session_state_OpenGL =
     [\<lparr>D3D11 = Unset, OpenGL = Valid \<lparr>colorBufferName = 2\<rparr>\<rparr>,
      \<lparr>D3D11 = Unset, OpenGL = Valid \<lparr>colorBufferName = 2\<rparr>\<rparr>]"
  by (simp_all add: example_defs entry_point_defs primitive_defs)

lemma example_created_state_fields:
  "s_DeviceType example_created_state = 2"
  "render example_created_state = Valid 7"
  "renderBuffers example_created_state = []"
  "s_DeviceType example_created_state_OpenGL = 0"
  "render example_created_state_OpenGL = Valid 7"
  "frameBuffer example_created_state_OpenGL = 0"
  by (simp_all add: example_defs entry_point_defs primitive_defs)

theorem OnGraphicsDeviceEvent_dispatches_on_entry_kind_witness:
  "(\<exists>s'. OnGraphicsDeviceEvent example_renderers example_host kUnityGfxDeviceEventShutdown
            example_session_state = Inr s'
        \<and> s_DeviceType s' = kUnityGfxRendererNull example_renderers
        \<and> render s' = Deleted 7
        \<and> E_delete_RenderManager 7 \<in> set (events_since example_session_state s')
        \<and> filter is_Call (events_since example_session_state s')
            = [Call_DoEventGraphicsDeviceD3D11 kUnityGfxDeviceEventShutdown])
   \<and> (\<exists>s'. OnGraphicsDeviceEvent example_renderers example_host kUnityGfxDeviceEventShutdown
            example_session_state_OpenGL = Inr s'
        \<and> s_DeviceType s' = kUnityGfxRendererNull example_renderers
        \<and> filter is_Call (events_since example_session_state_OpenGL s')
            = [Call_DoEventGraphicsDeviceOpenGL kUnityGfxDeviceEventShutdown])
   \<and> (\<exists>s'. OnGraphicsDeviceEvent example_renderers example_host kUnityGfxDeviceEventInitialize
            (initial_state example_renderers) = Inr s'
        \<and> s_DeviceType s' = kUnityGfxRendererD3D11 example_renderers
        \<and> filter is_Call (events_since (initial_state example_renderers) s')
            = [Call_DoEventGraphicsDeviceD3D11 kUnityGfxDeviceEventInitialize])"
proof -
  have d: "kUnityGfxRendererOpenGL example_renderers \<noteq> kUnityGfxRendererD3D11 example_renderers"
    by (simp add: example_renderers_def)
  show ?thesis
    using
      OnGraphicsDeviceEvent_dispatches_on_entry_kind
        [OF d, of example_session_state 7 example_host]
      OnGraphicsDeviceEvent_dispatches_on_entry_kind
        [OF d, of example_session_state_OpenGL 7 example_host]
      OnGraphicsDeviceEvent_dispatches_on_entry_kind
        [OF d, of "initial_state example_renderers" 7 example_host]
    by (simp add: example_session_state_fields example_session_state_OpenGL_fields
          example_renderers_def example_host_def)
qed

subsection \<open>Registration of the host's textures\<close>

lemma ConstructBuffersD3D11_texture_ptrs:
  "ConstructBuffersD3D11 w eye s = Inr (s', rc) \<Longrightarrow>
     leftEyeTexturePtr s' = leftEyeTexturePtr s \<and> rightEyeTexturePtr s' = rightEyeTexturePtr s"
  by (cases "ret_CreateTexture2D w"; cases "ret_CreateRenderTargetView w")
     (auto simp: ConstructBuffersD3D11_def fetch_RenderInfo_def emit_def DebugLog_def Let_def
        and_then_eq_Inr)

lemma ConstructBuffersOpenGL_texture_ptrs:
  "ConstructBuffersOpenGL w eye s = Inr s' \<Longrightarrow>
     leftEyeTexturePtr s' = leftEyeTexturePtr s \<and> rightEyeTexturePtr s' = rightEyeTexturePtr s"
  by (auto simp: ConstructBuffersOpenGL_def fetch_RenderInfo_def emit_def DebugLog_def Let_def
        and_then_eq_Inr split: if_splits)

lemma SetColorBufferFromUnity_unfold:
  "s_DeviceType s \<noteq> - 1 \<Longrightarrow>
   SetColorBufferFromUnity U w texturePtr eye s =
     (if s_DeviceType s = kUnityGfxRendererD3D11 U then
        and_then (ConstructBuffersD3D11 w eye (texture_registered texturePtr eye s))
          (\<lambda>r. Inr (fst r, OSVR_RETURN_SUCCESS))
      else if s_DeviceType s = kUnityGfxRendererOpenGL U then
        and_then (ConstructBuffersOpenGL w eye (texture_registered texturePtr eye s))
          (\<lambda>s3. Inr (s3, OSVR_RETURN_SUCCESS))
      else Inr (DebugLog ''Device type not supported.'' (texture_registered texturePtr eye s),
                OSVR_RETURN_FAILURE))"
  by (simp add: SetColorBufferFromUnity_def texture_registered_def DebugLog_def emit_def Let_def
        split_def)

lemma Inr_pair_exists: "(\<exists>r. m = Inr r) \<Longrightarrow> \<exists>a b. m = Inr (a, b)"
  by auto

text \<open>
  C5. Whenever \<open>SetColorBufferFromUnity\<close> returns, in a state whose device type is
  not \<open>-1\<close>: the texture pointer is stored as the left texture when the eye is 0 and
  as the right texture otherwise, the other one being kept; with Direct3D 11 or OpenGL
  active, the state returned is the one the backend's construction for that eye
  produces from the state with the pointer stored; and the code returned is the
  failure code exactly when the device type is neither Direct3D 11 nor OpenGL.
\<close>

theorem SetColorBufferFromUnity_stores_constructs_and_reports:
  assumes ret: "SetColorBufferFromUnity U w texturePtr eye s = Inr (s', rc)"
    and known: "s_DeviceType s \<noteq> - 1"
    and two: "kUnityGfxRendererOpenGL U \<noteq> kUnityGfxRendererD3D11 U"
  shows "(if eye = 0
          then leftEyeTexturePtr s' = texturePtr \<and> rightEyeTexturePtr s' = rightEyeTexturePtr s
          else rightEyeTexturePtr s' = texturePtr \<and> leftEyeTexturePtr s' = leftEyeTexturePtr s)
    \<and> (s_DeviceType s = kUnityGfxRendererD3D11 U \<longrightarrow>
         (\<exists>rc'. ConstructBuffersD3D11 w eye (texture_registered texturePtr eye s) = Inr (s', rc')))
    \<and> (s_DeviceType s = kUnityGfxRendererOpenGL U \<longrightarrow>
         ConstructBuffersOpenGL w eye (texture_registered texturePtr eye s) = Inr s')
    \<and> (rc = OSVR_RETURN_FAILURE \<longleftrightarrow>
         s_DeviceType s \<noteq> kUnityGfxRendererD3D11 U \<and> s_DeviceType s \<noteq> kUnityGfxRendererOpenGL U)"
proof (cases "s_DeviceType s = kUnityGfxRendererD3D11 U")
  case True
  with ret known obtain rc' where
    c: "ConstructBuffersD3D11 w eye (texture_registered texturePtr eye s) = Inr (s', rc')"
    and rc: "rc = OSVR_RETURN_SUCCESS"
    by (auto simp: SetColorBufferFromUnity_unfold and_then_eq_Inr)
  from ConstructBuffersD3D11_texture_ptrs [OF c] True two rc c show ?thesis
    by (auto simp: texture_registered_def DebugLog_def emit_def)
next
  case notD: False
  show ?thesis
  proof (cases "s_DeviceType s = kUnityGfxRendererOpenGL U")
    case True
    with ret known notD have
      c: "ConstructBuffersOpenGL w eye (texture_registered texturePtr eye s) = Inr s'"
      and rc: "rc = OSVR_RETURN_SUCCESS"
      by (auto simp: SetColorBufferFromUnity_unfold and_then_eq_Inr)
    from ConstructBuffersOpenGL_texture_ptrs [OF c] True notD rc c show ?thesis
      by (auto simp: texture_registered_def DebugLog_def emit_def)
  next
    case False
    with ret known notD show ?thesis
      by (auto simp: SetColorBufferFromUnity_unfold texture_registered_def DebugLog_def emit_def)
  qed
qed

theorem SetColorBufferFromUnity_stores_constructs_and_reports_witness:
  "(\<exists>s' rc. SetColorBufferFromUnity example_renderers example_host 1001 0 example_created_state
              = Inr (s', rc)
        \<and> leftEyeTexturePtr s' = 1001 \<and> rc = OSVR_RETURN_SUCCESS)
   \<and> (\<exists>s' rc. SetColorBufferFromUnity example_renderers example_host 1002 1
                (initial_state example_renderers) = Inr (s', rc)
        \<and> rightEyeTexturePtr s' = 1002 \<and> rc = OSVR_RETURN_FAILURE)"
proof -
  have d: "kUnityGfxRendererOpenGL example_renderers \<noteq> kUnityGfxRendererD3D11 example_renderers"
    by (simp add: example_renderers_def)
  have "\<exists>r. SetColorBufferFromUnity example_renderers example_host 1001 0 example_created_state = Inr r"
    by (simp add: example_defs entry_point_defs primitive_defs)
  then obtain s1 rc1 where
    r1: "SetColorBufferFromUnity example_renderers example_host 1001 0 example_created_state
          = Inr (s1, rc1)"
    using Inr_pair_exists by blast
  have k1: "s_DeviceType example_created_state \<noteq> - 1"
    by (simp add: example_created_state_fields)
  from SetColorBufferFromUnity_stores_constructs_and_reports [OF r1 k1 d]
  have "leftEyeTexturePtr s1 = 1001 \<and> rc1 \<noteq> OSVR_RETURN_FAILURE"
    by (simp add: example_created_state_fields example_renderers_def)
  then have a: "leftEyeTexturePtr s1 = 1001 \<and> rc1 = OSVR_RETURN_SUCCESS"
    by (cases rc1) simp_all
  have "\<exists>r. SetColorBufferFromUnity example_renderers example_host 1002 1
               (initial_state example_renderers) = Inr r"
    by (simp add: example_defs entry_point_defs primitive_defs)
  then obtain s2 rc2 where
    r2: "SetColorBufferFromUnity example_renderers example_host 1002 1
           (initial_state example_renderers) = Inr (s2, rc2)"
    using Inr_pair_exists by blast
  have k2: "s_DeviceType (initial_state example_renderers) \<noteq> - 1"
    by (simp add: initial_state_def example_renderers_def)
  from SetColorBufferFromUnity_stores_constructs_and_reports [OF r2 k2 d]
  have b: "rightEyeTexturePtr s2 = 1002 \<and> rc2 = OSVR_RETURN_FAILURE"
    by (simp add: initial_state_def example_renderers_def)
  from r1 a r2 b show ?thesis by blast
qed

text \<open>
  C9. With Direct3D 11 active (and its renderer value not \<open>-1\<close>), whenever
  \<open>SetColorBufferFromUnity\<close> returns it returns success, while the construction
  it ran returned the failure code exactly when the texture or the render-target view
  could not be created: that code is dropped. So a failure code from this entry point
  never reports a creation failure.
\<close>

theorem SetColorBufferFromUnity_D3D11_hides_construction_failure:
  assumes ret: "SetColorBufferFromUnity U w texturePtr eye s = Inr (s', rc)"
    and active: "s_DeviceType s = kUnityGfxRendererD3D11 U"
    and known: "kUnityGfxRendererD3D11 U \<noteq> - 1"
  shows "rc = OSVR_RETURN_SUCCESS
    \<and> (\<exists>rc'. ConstructBuffersD3D11 w eye (texture_registered texturePtr eye s) = Inr (s', rc')
          \<and> (rc' = OSVR_RETURN_FAILURE \<longleftrightarrow>
               ret_CreateTexture2D w = None \<or> ret_CreateRenderTargetView w = None))"
proof -
  from ret active known obtain rc' where
    c: "ConstructBuffersD3D11 w eye (texture_registered texturePtr eye s) = Inr (s', rc')"
    and rc: "rc = OSVR_RETURN_SUCCESS"
    by (auto simp: SetColorBufferFromUnity_unfold and_then_eq_Inr)
  from c have "rc' = OSVR_RETURN_FAILURE \<longleftrightarrow>
      ret_CreateTexture2D w = None \<or> ret_CreateRenderTargetView w = None"
    by (cases "ret_CreateTexture2D w"; cases "ret_CreateRenderTargetView w")
       (auto simp: ConstructBuffersD3D11_def Let_def and_then_eq_Inr)
  with c rc show ?thesis by simp
qed

theorem SetColorBufferFromUnity_D3D11_hides_construction_failure_witness:
  "\<exists>s' rc. SetColorBufferFromUnity example_renderers example_host_no_texture 1001 0
             example_created_state = Inr (s', rc)
      \<and> rc = OSVR_RETURN_SUCCESS
      \<and> ConstructBuffersD3D11 example_host_no_texture 0
           (texture_registered 1001 0 example_created_state) = Inr (s', OSVR_RETURN_FAILURE)"
proof -
  have "\<exists>r. SetColorBufferFromUnity example_renderers example_host_no_texture 1001 0
               example_created_state = Inr r"
    by (simp add: example_defs entry_point_defs primitive_defs)
  then obtain s1 rc1 where
    r1: "SetColorBufferFromUnity example_renderers example_host_no_texture 1001 0
           example_created_state = Inr (s1, rc1)"
    using Inr_pair_exists by blast
  have a: "s_DeviceType example_created_state = kUnityGfxRendererD3D11 example_renderers"
    by (simp add: example_created_state_fields example_renderers_def)
  have k: "kUnityGfxRendererD3D11 example_renderers \<noteq> - 1"
    by (simp add: example_renderers_def)
  from SetColorBufferFromUnity_D3D11_hides_construction_failure [OF r1 a k]
  have "rc1 = OSVR_RETURN_SUCCESS
      \<and> ConstructBuffersD3D11 example_host_no_texture 0
           (texture_registered 1001 0 example_created_state) = Inr (s1, OSVR_RETURN_FAILURE)"
    by (auto simp: example_host_no_texture_def)
  with r1 show ?thesis by blast
qed

subsection \<open>Construction of the buffers\<close>

text \<open>
  Within one OpenGL construction that returns, \<open>glGenFramebuffers\<close> is called
  once when the eye is 0 and not at all otherwise, and the global \<open>frameBuffer\<close>
  is the new framebuffer when the eye is 0 and is what it was before otherwise.
\<close>

lemma ConstructBuffersOpenGL_framebuffer_per_call:
  assumes "ConstructBuffersOpenGL w eye s = Inr s'"
  shows "length (filter (is_gl_call ''glGenFramebuffers'') (events_since s s')) = (if eye = 0 then 1 else 0)
    \<and> frameBuffer s' = (if eye = 0 then ret_glGenFramebuffers w else frameBuffer s)"
  using assms
  by (auto simp: ConstructBuffersOpenGL_def fetch_RenderInfo_def emit_def DebugLog_def Let_def
        and_then_eq_Inr events_since_def split: if_splits)

text \<open>
  C8. The specification says that the shared framebuffer object is created exactly
  once, and the source marks the creation with the comment "do this once". The
  creation is guarded by the eye's index only, so every construction for eye 0 creates
  a framebuffer. In the OpenGL session, when the host registers a texture for eye 0
  and later registers another one for eye 0, \<open>glGenFramebuffers\<close> has been called
  twice, and the global \<open>frameBuffer\<close>, which held the first framebuffer (1), holds
  the second (9); nothing deletes the first.
\<close>

theorem SetColorBufferFromUnity_OpenGL_eye_0_twice_creates_two_framebuffers:
  "map_sum id (frameBuffer \<circ> fst)
     (SetColorBufferFromUnity example_renderers example_host_OpenGL 1001 0
        example_created_state_OpenGL)
     = Inr 1
   \<and> map_sum id (frameBuffer \<circ> fst)
     (and_then
        (SetColorBufferFromUnity example_renderers example_host_OpenGL 1001 0
           example_created_state_OpenGL)
        (SetColorBufferFromUnity example_renderers example_host_OpenGL_again 1003 0 \<circ> fst))
     = Inr 9
   \<and> map_sum id
       (length \<circ> filter (is_gl_call ''glGenFramebuffers'')
          \<circ> events_since example_created_state_OpenGL \<circ> fst)
     (and_then
        (SetColorBufferFromUnity example_renderers example_host_OpenGL 1001 0
           example_created_state_OpenGL)
        (SetColorBufferFromUnity example_renderers example_host_OpenGL_again 1003 0 \<circ> fst))
     = Inr 2
   \<and> map_sum id
       (filter (is_gl_call ''glDeleteFramebuffers'')
          \<circ> events_since example_created_state_OpenGL \<circ> fst)
     (and_then
        (SetColorBufferFromUnity example_renderers example_host_OpenGL 1001 0
           example_created_state_OpenGL)
        (SetColorBufferFromUnity example_renderers example_host_OpenGL_again 1003 0 \<circ> fst))
     = Inr []"
  by (simp add: example_defs entry_point_defs primitive_defs events_since_def)

text \<open>
  C6 (as amended). Whenever the Direct3D 11 construction returns: the texture it asked
  for has the width and height of the eye's viewport (truncated to 32 bits), the format
  \<open>DXGI_FORMAT_R8G8B8A8_UNORM\<close> and the render-target and shader-resource bind
  flags, and the view it asked for has the same format; if either creation failed,
  the failure code is returned and \<open>renderBuffers\<close> is unchanged; if both
  succeeded, success is returned and exactly one buffer, holding the new texture and
  view, is appended at the end of \<open>renderBuffers\<close>. That position is the eye's
  index when as many buffers as the eye's index were registered before.
\<close>

theorem ConstructBuffersD3D11_registers_whole_buffer_at_end:
  assumes "ConstructBuffersD3D11 w eye s = Inr (s', rc)"
  shows "(ret_CreateTexture2D w = None \<or> ret_CreateRenderTargetView w = None \<longrightarrow>
            rc = OSVR_RETURN_FAILURE \<and> renderBuffers s' = renderBuffers s)
    \<and> (\<forall>tex view. ret_CreateTexture2D w = Some tex \<and> ret_CreateRenderTargetView w = Some view \<longrightarrow>
            rc = OSVR_RETURN_SUCCESS
            \<and> renderBuffers s' = renderBuffers s
                 @ [\<lparr>D3D11 = Valid \<lparr>colorBuffer = tex, colorBufferView = view\<rparr>, OpenGL = Unset\<rparr>]
            \<and> (length (renderBuffers s) = nat eye \<longrightarrow>
                 registered_at_eye_position eye
                   \<lparr>D3D11 = Valid \<lparr>colorBuffer = tex, colorBufferView = view\<rparr>, OpenGL = Unset\<rparr> s'))
    \<and> (\<exists>info wd ht lib.
            at_index (ret_GetRenderInfo w 0) eye = Inr info
            \<and> double_to_int (width (viewport info)) = Inr wd
            \<and> double_to_int (height (viewport info)) = Inr ht
            \<and> deref (D3D11_library (library_of info)) = Inr lib
            \<and> Width (textureDesc s') = word_of_int wd
            \<and> Height (textureDesc s') = word_of_int ht
            \<and> Format (textureDesc s') = DXGI_FORMAT_R8G8B8A8_UNORM
            \<and> BindFlags (textureDesc s') = {D3D11_BIND_RENDER_TARGET, D3D11_BIND_SHADER_RESOURCE}
            \<and> E_CreateTexture2D (device lib) (textureDesc s') \<in> set (events_since s s')
            \<and> (\<forall>tex. ret_CreateTexture2D w = Some tex \<longrightarrow>
                  (\<exists>d. E_CreateRenderTargetView (device lib) tex d \<in> set (events_since s s')
                       \<and> rtv_Format d = Format (textureDesc s'))))"
  using assms
  by (cases "ret_CreateTexture2D w"; cases "ret_CreateRenderTargetView w")
     (auto simp: ConstructBuffersD3D11_def fetch_RenderInfo_def emit_def DebugLog_def Let_def
        and_then_eq_Inr events_since_def registered_at_eye_position_def at_index_def
        zero_textureDesc_def zero_renderTargetViewDesc_def nth_append split: if_splits)

theorem ConstructBuffersD3D11_registers_whole_buffer_at_end_witness:
  "\<exists>s' rc. ConstructBuffersD3D11 example_host_right 1 example_session_first_eye = Inr (s', rc)
      \<and> rc = OSVR_RETURN_SUCCESS
      \<and> renderBuffers s' = renderBuffers example_session_first_eye
           @ [\<lparr>D3D11 = Valid \<lparr>colorBuffer = 201, colorBufferView = 301\<rparr>, OpenGL = Unset\<rparr>]
      \<and> registered_at_eye_position 1
           \<lparr>D3D11 = Valid \<lparr>colorBuffer = 201, colorBufferView = 301\<rparr>, OpenGL = Unset\<rparr> s'"
proof -
  have "\<exists>r. ConstructBuffersD3D11 example_host_right 1 example_session_first_eye = Inr r"
    by (simp add: example_defs example_session_first_eye_def entry_point_defs primitive_defs)
  then obtain s1 rc1 where
    r1: "ConstructBuffersD3D11 example_host_right 1 example_session_first_eye = Inr (s1, rc1)"
    using Inr_pair_exists by blast
  have l: "length (renderBuffers example_session_first_eye) = nat 1"
    by (simp add: example_defs example_session_first_eye_def entry_point_defs primitive_defs)
  from ConstructBuffersD3D11_registers_whole_buffer_at_end [OF r1] l
  have "rc1 = OSVR_RETURN_SUCCESS
      \<and> renderBuffers s1 = renderBuffers example_session_first_eye
           @ [\<lparr>D3D11 = Valid \<lparr>colorBuffer = 201, colorBufferView = 301\<rparr>, OpenGL = Unset\<rparr>]
      \<and> registered_at_eye_position 1
           \<lparr>D3D11 = Valid \<lparr>colorBuffer = 201, colorBufferView = 301\<rparr>, OpenGL = Unset\<rparr> s1"
    by (simp add: example_host_right_def example_host_def)
  with r1 show ?thesis by blast
qed

text \<open>
  C6 as the specification states it fails. In the session where both eyes are
  registered, a further successful construction for eye 0 (the host registers a new
  texture for the left eye) leaves position 0 of \<open>renderBuffers\<close> as it was and
  puts the new buffer at position 2.
\<close>

theorem ConstructBuffersD3D11_second_buffer_for_eye_0_counterexample:
  "map_sum id snd (ConstructBuffersD3D11 example_host_again 0 example_session_state)
     = Inr OSVR_RETURN_SUCCESS
   \<and> map_sum id
       (registered_at_eye_position 0
          \<lparr>D3D11 = Valid \<lparr>colorBuffer = 202, colorBufferView = 302\<rparr>, OpenGL = Unset\<rparr> \<circ> fst)
       (ConstructBuffersD3D11 example_host_again 0 example_session_state)
     = Inr False
   \<and> map_sum id
       (registered_at_eye_position 2
          \<lparr>D3D11 = Valid \<lparr>colorBuffer = 202, colorBufferView = 302\<rparr>, OpenGL = Unset\<rparr> \<circ> fst)
       (ConstructBuffersD3D11 example_host_again 0 example_session_state)
     = Inr True"
  by (simp add: example_defs entry_point_defs primitive_defs registered_at_eye_position_def)

subsection \<open>The render tick\<close>

lemma emit_fields:
  "s_DeviceType (emit e s) = s_DeviceType s"
  "render (emit e s) = render s"
  "clientContext (emit e s) = clientContext s"
  "renderBuffers (emit e s) = renderBuffers s"
  "renderInfo (emit e s) = renderInfo s"
  "library (emit e s) = library s"
  "leftEyeTexturePtr (emit e s) = leftEyeTexturePtr s"
  "rightEyeTexturePtr (emit e s) = rightEyeTexturePtr s"
  "textureDesc (emit e s) = textureDesc s"
  "frameBuffer (emit e s) = frameBuffer s"
  "debugLog (emit e s) = debugLog s"
  "trace (emit e s) = trace s @ [e]"
  by (simp_all add: emit_def)

text \<open>For long runs: \<open>emit\<close> stays folded and only its fields are computed.\<close>

lemmas folded_defs =
  and_then_def deref_def at_index_def double_to_int_def DebugLog_def
  delete_render_def fetch_RenderInfo_def kOsvrEventID_Render_def kOsvrEventID_Shutdown_def
  zero_textureDesc_def zero_renderTargetViewDesc_def Let_def emit_fields

lemma quiet_step_refl: "quiet_step s s"
  by (simp add: quiet_step_def)

lemma quiet_step_trans: "quiet_step a b \<Longrightarrow> quiet_step b c \<Longrightarrow> quiet_step a c"
  by (auto simp: quiet_step_def)

lemma for_each_preserves:
  assumes step: "\<And>i s s'. body i s = Inr s' \<Longrightarrow> R s s'"
    and refl: "\<And>s. R s s"
    and trans: "\<And>a b c. R a b \<Longrightarrow> R b c \<Longrightarrow> R a c"
  shows "for_each js body s = Inr s' \<Longrightarrow> R s s'"
proof (induction js arbitrary: s)
  case Nil
  then show ?case by (simp add: refl)
next
  case (Cons j js)
  from Cons.prems obtain s1 where a: "body j s = Inr s1" and b: "for_each js body s1 = Inr s'"
    by (auto simp: and_then_eq_Inr)
  from step [OF a] Cons.IH [OF b] show ?case by (rule trans)
qed

lemma D3D11_loop:
  assumes "\<forall>i\<in>set js. i < length (renderInfo s) \<and> i < length (renderBuffers s)
             \<and> D3D11 (renderBuffers s ! i) = Valid (b i)
             \<and> D3D11_library (library_of (renderInfo s ! i)) = Valid (lib i)"
  shows "for_each js OnRenderEvent_D3D11_eye (s\<lparr>trace := t\<rparr>)
           = Inr (s\<lparr>trace := t @ concat (map (expected_eye_copy lib b s) js)\<rparr>)"
  using assms
proof (induction js arbitrary: t)
  case Nil
  then show ?case by simp
next
  case (Cons j js)
  from Cons.prems have
    "OnRenderEvent_D3D11_eye j (s\<lparr>trace := t\<rparr>) = Inr (s\<lparr>trace := t @ expected_eye_copy lib b s j\<rparr>)"
    by (simp add: OnRenderEvent_D3D11_eye_def RenderViewD3D11_def at_index_def deref_def
          and_then_def emit_def expected_eye_copy_def Let_def)
  moreover from Cons have
    "for_each js OnRenderEvent_D3D11_eye (s\<lparr>trace := t @ expected_eye_copy lib b s j\<rparr>)
       = Inr (s\<lparr>trace := (t @ expected_eye_copy lib b s j) @ concat (map (expected_eye_copy lib b s) js)\<rparr>)"
    by simp
  ultimately show ?case by (simp add: and_then_def)
qed

lemma quiet_emit: "\<not> is_Present e \<Longrightarrow> quiet_step s s1 \<Longrightarrow> quiet_step s (emit e s1)"
  by (auto simp: quiet_step_def emit_def)

lemma RenderViewOpenGL_quiet:
  "RenderViewOpenGL w info fb cb i s = Inr s' \<Longrightarrow> renderBuffers s' = renderBuffers s \<and> quiet_step s s'"
  by (auto simp: RenderViewOpenGL_def DebugLog_def Let_def and_then_eq_Inr emit_fields
        quiet_emit quiet_step_refl split: if_splits)

lemma OpenGL_eye_quiet:
  "OnRenderEvent_OpenGL_eye w i s = Inr s' \<Longrightarrow> renderBuffers s' = renderBuffers s \<and> quiet_step s s'"
  by (auto simp: OnRenderEvent_OpenGL_eye_def and_then_eq_Inr dest: RenderViewOpenGL_quiet)

lemma OpenGL_loop_quiet:
  "for_each js (OnRenderEvent_OpenGL_eye w) s = Inr s' \<Longrightarrow>
     renderBuffers s' = renderBuffers s \<and> quiet_step s s'"
  by (rule for_each_preserves [where body = "OnRenderEvent_OpenGL_eye w"
        and R = "\<lambda>s s'. renderBuffers s' = renderBuffers s \<and> quiet_step s s'"])
     (auto simp: quiet_step_refl dest: OpenGL_eye_quiet intro: quiet_step_trans)

lemma Shutdown_OpenGL_buffer_quiet:
  "Shutdown_OpenGL_buffer i s = Inr s' \<Longrightarrow> quiet_step s s'"
  by (auto simp: Shutdown_OpenGL_buffer_def emit_def Let_def and_then_eq_Inr quiet_step_def)

lemma Shutdown_loop_quiet:
  "for_each js Shutdown_OpenGL_buffer s = Inr s' \<Longrightarrow> quiet_step s s'"
  by (rule for_each_preserves [where body = Shutdown_OpenGL_buffer and R = quiet_step])
     (auto simp: quiet_step_refl dest: Shutdown_OpenGL_buffer_quiet intro: quiet_step_trans)

lemma Shutdown_quiet:
  "Shutdown U s = Inr s' \<Longrightarrow> quiet_step s s'"
  by (auto simp: Shutdown_def emit_def DebugLog_def Let_def and_then_eq_Inr quiet_step_def
        delete_render_def split: if_splits ptr.splits dest!: Shutdown_loop_quiet)

lemma OnRenderEvent_Render_D3D11:
  assumes dev: "s_DeviceType s = kUnityGfxRendererD3D11 U" "kUnityGfxRendererD3D11 U \<noteq> - 1"
    and live: "render s = Valid m"
    and eyes: "\<forall>i<length (ret_GetRenderInfo w 0). i < length (renderBuffers s)
             \<and> D3D11 (renderBuffers s ! i) = Valid (b i)
             \<and> D3D11_library (library_of (ret_GetRenderInfo w 0 ! i)) = Valid (lib i)"
  shows "\<exists>s'. OnRenderEvent U w kOsvrEventID_Render s = Inr s'
     \<and> events_since s s' =
         [E_GetRenderInfo]
         @ concat (map (expected_eye_copy lib b s) [0 ..< length (ret_GetRenderInfo w 0)])
         @ [E_PresentRenderBuffers (renderBuffers s) (Some True)]
         @ (if ret_PresentRenderBuffers w \<or> debugLog s = 0 then []
            else [E_DebugLog ''[OSVR Rendering Plugin] PresentRenderBuffers() returned false, maybe because it was asked to quit''])"
proof -
  let ?s1 = "s\<lparr>renderInfo := ret_GetRenderInfo w 0\<rparr>"
  have f: "fetch_RenderInfo w 0 s = Inr (?s1\<lparr>trace := trace s @ [E_GetRenderInfo]\<rparr>)"
    using live by (simp add: fetch_RenderInfo_def deref_def and_then_def emit_def)
  have "\<forall>i\<in>set [0 ..< length (ret_GetRenderInfo w 0)]. i < length (renderInfo ?s1) \<and> i < length (renderBuffers ?s1)
             \<and> D3D11 (renderBuffers ?s1 ! i) = Valid (b i)
             \<and> D3D11_library (library_of (renderInfo ?s1 ! i)) = Valid (lib i)"
    using eyes by simp
  from D3D11_loop [OF this, of "trace s @ [E_GetRenderInfo]"]
  have l: "for_each [0 ..< length (ret_GetRenderInfo w 0)] OnRenderEvent_D3D11_eye (?s1\<lparr>trace := trace s @ [E_GetRenderInfo]\<rparr>)
      = Inr (?s1\<lparr>trace := (trace s @ [E_GetRenderInfo]) @ concat (map (expected_eye_copy lib b ?s1) [0 ..< length (ret_GetRenderInfo w 0)])\<rparr>)" .
  have e: "expected_eye_copy lib b ?s1 = expected_eye_copy lib b s"
    by (rule ext) (simp add: expected_eye_copy_def)
  show ?thesis
    using dev live
    by (simp add: OnRenderEvent_def kOsvrEventID_Render_def f and_then_Inr l e deref_def
          and_then_def emit_def DebugLog_def events_since_def Let_def)
qed

lemma OnRenderEvent_Render_OpenGL:
  assumes dev: "s_DeviceType s = kUnityGfxRendererOpenGL U" "s_DeviceType s \<noteq> - 1"
      "kUnityGfxRendererOpenGL U \<noteq> kUnityGfxRendererD3D11 U"
    and ret: "OnRenderEvent U w kOsvrEventID_Render s = Inr s'"
  shows "filter is_Present (events_since s s') = [E_PresentRenderBuffers (renderBuffers s) None]"
proof -
  from ret dev obtain s1 s2 s3 where
    f1: "fetch_RenderInfo w 0 s = Inr s1" and f2: "fetch_RenderInfo w 1 s1 = Inr s2"
    and l: "for_each [0 ..< length (renderInfo s2)] (OnRenderEvent_OpenGL_eye w) s2 = Inr s3"
    and s': "s' = (if \<not> ret_PresentRenderBuffers w
         then DebugLog ''PresentRenderBuffers() returned false, maybe because it was asked to quit''
                (emit (E_PresentRenderBuffers (renderBuffers s3) None) s3)
         else emit (E_PresentRenderBuffers (renderBuffers s3) None) s3)"
    by (auto simp: OnRenderEvent_def kOsvrEventID_Render_def and_then_eq_Inr fetch_RenderInfo_def
          emit_def Let_def split: if_splits)
  from f1 f2 have s2: "renderBuffers s2 = renderBuffers s" "trace s2 = trace s @ [E_GetRenderInfo, E_GetRenderInfo]"
    by (auto simp: fetch_RenderInfo_def and_then_eq_Inr emit_def)
  from OpenGL_loop_quiet [OF l] s2 obtain evs where
    "renderBuffers s3 = renderBuffers s" "trace s3 = trace s @ [E_GetRenderInfo, E_GetRenderInfo] @ evs"
    "filter is_Present evs = []"
    by (auto simp: quiet_step_def)
  with s' show ?thesis
    by (simp add: events_since_def emit_def DebugLog_def)
qed

lemma OnRenderEvent_unknown_device:
  "s_DeviceType s = - 1 \<Longrightarrow> OnRenderEvent U w eventID s = Inr s"
  by (simp add: OnRenderEvent_def)

lemma OnRenderEvent_Shutdown:
  "s_DeviceType s \<noteq> - 1 \<Longrightarrow> OnRenderEvent U w kOsvrEventID_Shutdown s = Shutdown U s"
  by (simp add: OnRenderEvent_def kOsvrEventID_Shutdown_def kOsvrEventID_Render_def)

lemma OnRenderEvent_other_event:
  "eventID \<noteq> kOsvrEventID_Render \<Longrightarrow> eventID \<noteq> kOsvrEventID_Shutdown \<Longrightarrow>
     OnRenderEvent U w eventID s = Inr s"
  by (simp add: OnRenderEvent_def)

lemma OnRenderEvent_Render_no_backend:
  "s_DeviceType s \<noteq> - 1 \<Longrightarrow> s_DeviceType s \<noteq> kUnityGfxRendererD3D11 U \<Longrightarrow>
   s_DeviceType s \<noteq> kUnityGfxRendererOpenGL U \<Longrightarrow>
     OnRenderEvent U w kOsvrEventID_Render s = fetch_RenderInfo w 0 s"
  by (cases "render s")
     (simp_all add: OnRenderEvent_def fetch_RenderInfo_def deref_def and_then_def emit_def)

lemma fetch_RenderInfo_quiet: "fetch_RenderInfo w k s = Inr s' \<Longrightarrow> quiet_step s s'"
  by (auto simp: fetch_RenderInfo_def and_then_eq_Inr quiet_step_def emit_def)

lemma quiet_step_no_present:
  "quiet_step s s' \<Longrightarrow> filter is_Present (events_since s s') = []"
  by (auto simp: quiet_step_def events_since_def)

lemma OnRenderEvent_flip_only_D3D11:
  assumes ret: "OnRenderEvent U w eventID s = Inr s'"
    and flip: "E_PresentRenderBuffers bs (Some True) \<in> set (events_since s s')"
  shows "s_DeviceType s = kUnityGfxRendererD3D11 U"
proof (rule ccontr)
  assume n: "s_DeviceType s \<noteq> kUnityGfxRendererD3D11 U"
  define F where "F = filter is_Present (events_since s s')"
  from flip have p: "E_PresentRenderBuffers bs (Some True) \<in> set F"
    by (simp add: F_def)
  have "F = [] \<or> F = [E_PresentRenderBuffers (renderBuffers s) None]"
  proof (cases "s_DeviceType s = - 1")
    case True
    with ret have "s' = s" by (simp add: OnRenderEvent_unknown_device)
    then show ?thesis by (simp add: F_def events_since_def)
  next
    case known: False
    consider (render) "eventID = kOsvrEventID_Render" | (shutdown) "eventID = kOsvrEventID_Shutdown"
      | (other) "eventID \<noteq> kOsvrEventID_Render" "eventID \<noteq> kOsvrEventID_Shutdown"
      by blast
    then show ?thesis
    proof cases
      case render
      show ?thesis
      proof (cases "s_DeviceType s = kUnityGfxRendererOpenGL U")
        case True
        with n have "kUnityGfxRendererOpenGL U \<noteq> kUnityGfxRendererD3D11 U" by auto
        from OnRenderEvent_Render_OpenGL [OF True known this] ret render show ?thesis by (simp add: F_def)
      next
        case False
        with ret n known render have "fetch_RenderInfo w 0 s = Inr s'"
          by (simp add: OnRenderEvent_Render_no_backend)
        then show ?thesis by (simp add: F_def fetch_RenderInfo_quiet quiet_step_no_present)
      qed
    next
      case shutdown
      with ret known have "Shutdown U s = Inr s'" by (simp add: OnRenderEvent_Shutdown)
      then show ?thesis by (simp add: F_def Shutdown_quiet quiet_step_no_present)
    next
      case other
      with ret have "s' = s" by (simp add: OnRenderEvent_other_event)
      then show ?thesis by (simp add: F_def events_since_def)
    qed
  qed
  with p show False by auto
qed

text \<open>
  C4. A render tick (event 0) with Direct3D 11 active, a live render manager, and for
  every eye the render manager reports a registered Direct3D buffer: the tick returns,
  and after fetching the render info it does, for the eyes in the order of their
  indices, one binding of the eye's view and one copy of the host's texture for the eye
  (the left texture for eye 0, the right one otherwise) into the color buffer of the
  eye's render buffer, and then one present call of the whole of \<open>renderBuffers\<close>
  with the vertical flip set to true (and, if the present call reports false and a
  debug sink is installed, a line to the sink). A render tick on OpenGL that returns makes one present call, of the whole of
  \<open>renderBuffers\<close> and without a flip argument. No call of \<open>OnRenderEvent\<close>
  presents with the flip set unless Direct3D 11 is active.
\<close>

theorem OnRenderEvent_Render_one_copy_per_eye_then_present:
  "(s_DeviceType s = kUnityGfxRendererD3D11 U \<and> kUnityGfxRendererD3D11 U \<noteq> - 1
      \<and> render s = Valid m
      \<and> (\<forall>i<length (ret_GetRenderInfo w 0). i < length (renderBuffers s)
             \<and> D3D11 (renderBuffers s ! i) = Valid (b i)
             \<and> D3D11_library (library_of (ret_GetRenderInfo w 0 ! i)) = Valid (lib i)) \<longrightarrow>
      (\<exists>s'. OnRenderEvent U w kOsvrEventID_Render s = Inr s'
         \<and> events_since s s' =
             [E_GetRenderInfo]
             @ concat (map (expected_eye_copy lib b s) [0 ..< length (ret_GetRenderInfo w 0)])
             @ [E_PresentRenderBuffers (renderBuffers s) (Some True)]
             @ (if ret_PresentRenderBuffers w \<or> debugLog s = 0 then []
                else [E_DebugLog ''[OSVR Rendering Plugin] PresentRenderBuffers() returned false, maybe because it was asked to quit''])))
   \<and> (s_DeviceType g = kUnityGfxRendererOpenGL U \<and> s_DeviceType g \<noteq> - 1
        \<and> kUnityGfxRendererOpenGL U \<noteq> kUnityGfxRendererD3D11 U
        \<and> OnRenderEvent U h kOsvrEventID_Render g = Inr g' \<longrightarrow>
      filter is_Present (events_since g g') = [E_PresentRenderBuffers (renderBuffers g) None])
   \<and> (OnRenderEvent U x eventID t = Inr t'
        \<and> E_PresentRenderBuffers bs (Some True) \<in> set (events_since t t') \<longrightarrow>
      s_DeviceType t = kUnityGfxRendererD3D11 U)"
proof (intro conjI impI)
  assume "s_DeviceType s = kUnityGfxRendererD3D11 U \<and> kUnityGfxRendererD3D11 U \<noteq> - 1
      \<and> render s = Valid m
      \<and> (\<forall>i<length (ret_GetRenderInfo w 0). i < length (renderBuffers s)
             \<and> D3D11 (renderBuffers s ! i) = Valid (b i)
             \<and> D3D11_library (library_of (ret_GetRenderInfo w 0 ! i)) = Valid (lib i))"
  then show "\<exists>s'. OnRenderEvent U w kOsvrEventID_Render s = Inr s'
         \<and> events_since s s' =
             [E_GetRenderInfo]
             @ concat (map (expected_eye_copy lib b s) [0 ..< length (ret_GetRenderInfo w 0)])
             @ [E_PresentRenderBuffers (renderBuffers s) (Some True)]
             @ (if ret_PresentRenderBuffers w \<or> debugLog s = 0 then []
                else [E_DebugLog ''[OSVR Rendering Plugin] PresentRenderBuffers() returned false, maybe because it was asked to quit''])"
    using OnRenderEvent_Render_D3D11 [of s U m w b lib] by blast
next
  assume "s_DeviceType g = kUnityGfxRendererOpenGL U \<and> s_DeviceType g \<noteq> - 1
        \<and> kUnityGfxRendererOpenGL U \<noteq> kUnityGfxRendererD3D11 U
        \<and> OnRenderEvent U h kOsvrEventID_Render g = Inr g'"
  then show "filter is_Present (events_since g g') = [E_PresentRenderBuffers (renderBuffers g) None]"
    using OnRenderEvent_Render_OpenGL [of g U h g'] by blast
next
  assume "OnRenderEvent U x eventID t = Inr t'
        \<and> E_PresentRenderBuffers bs (Some True) \<in> set (events_since t t')"
  then show "s_DeviceType t = kUnityGfxRendererD3D11 U"
    using OnRenderEvent_flip_only_D3D11 [of U x eventID t t' bs] by blast
qed

theorem OnRenderEvent_Render_one_copy_per_eye_then_present_witness:
  "(\<exists>s'. OnRenderEvent example_renderers example_host kOsvrEventID_Render example_session_state
            = Inr s'
        \<and> events_since example_session_state s' =
            [E_GetRenderInfo,
             E_OMSetRenderTargets 101 300, E_CopyResource 101 200 1001,
             E_OMSetRenderTargets 101 301, E_CopyResource 101 201 1002,
             E_PresentRenderBuffers (renderBuffers example_session_state) (Some True)])
   \<and> (\<exists>g'. OnRenderEvent example_renderers example_host_OpenGL kOsvrEventID_Render
            example_session_state_OpenGL = Inr g'
        \<and> filter is_Present (events_since example_session_state_OpenGL g')
            = [E_PresentRenderBuffers (renderBuffers example_session_state_OpenGL) None])"
proof -
  note inst = OnRenderEvent_Render_one_copy_per_eye_then_present
      [of example_session_state example_renderers 7 example_host example_buffer example_library
          example_session_state_OpenGL example_host_OpenGL]
  have eyes: "\<forall>i<length (ret_GetRenderInfo example_host 0).
      i < length (renderBuffers example_session_state)
      \<and> D3D11 (renderBuffers example_session_state ! i) = Valid (example_buffer i)
      \<and> D3D11_library (library_of (ret_GetRenderInfo example_host 0 ! i)) = Valid (example_library i)"
    by (auto simp: example_session_state_fields example_host_def example_info_def
          example_buffer_def example_library_def less_Suc_eq numeral_2_eq_2)
  have pre: "s_DeviceType example_session_state = kUnityGfxRendererD3D11 example_renderers
      \<and> kUnityGfxRendererD3D11 example_renderers \<noteq> - 1
      \<and> render example_session_state = Valid 7"
    by (simp add: example_session_state_fields example_renderers_def)
  from inst pre eyes obtain s1 where
    r1: "OnRenderEvent example_renderers example_host kOsvrEventID_Render example_session_state = Inr s1"
    and e1: "events_since example_session_state s1 =
             [E_GetRenderInfo]
             @ concat (map (expected_eye_copy example_library example_buffer example_session_state)
                        [0 ..< length (ret_GetRenderInfo example_host 0)])
             @ [E_PresentRenderBuffers (renderBuffers example_session_state) (Some True)]
             @ (if ret_PresentRenderBuffers example_host \<or> debugLog example_session_state = 0 then []
                else [E_DebugLog ''[OSVR Rendering Plugin] PresentRenderBuffers() returned false, maybe because it was asked to quit''])"
    by blast
  from e1 have e1': "events_since example_session_state s1 =
            [E_GetRenderInfo,
             E_OMSetRenderTargets 101 300, E_CopyResource 101 200 1001,
             E_OMSetRenderTargets 101 301, E_CopyResource 101 201 1002,
             E_PresentRenderBuffers (renderBuffers example_session_state) (Some True)]"
    by (simp add: example_host_def expected_eye_copy_def example_buffer_def example_library_def
          example_session_state_fields)
  have "\<exists>r. OnRenderEvent example_renderers example_host_OpenGL kOsvrEventID_Render
               example_session_state_OpenGL = Inr r"
    by (simp add: example_session_state_OpenGL_fields example_renderers_def example_host_OpenGL_def
          example_host_def example_info_def entry_point_defs folded_defs)
  then obtain g1 where
    r2: "OnRenderEvent example_renderers example_host_OpenGL kOsvrEventID_Render
           example_session_state_OpenGL = Inr g1"
    by blast
  have pre2: "s_DeviceType example_session_state_OpenGL = kUnityGfxRendererOpenGL example_renderers
      \<and> s_DeviceType example_session_state_OpenGL \<noteq> - 1
      \<and> kUnityGfxRendererOpenGL example_renderers \<noteq> kUnityGfxRendererD3D11 example_renderers"
    by (simp add: example_session_state_OpenGL_fields example_renderers_def)
  from OnRenderEvent_Render_one_copy_per_eye_then_present
      [of example_session_state example_renderers 7 example_host example_buffer example_library
          example_session_state_OpenGL example_host_OpenGL g1] pre2 r2
  have e2: "filter is_Present (events_since example_session_state_OpenGL g1)
            = [E_PresentRenderBuffers (renderBuffers example_session_state_OpenGL) None]"
    by blast
  from r1 e1' r2 e2 show ?thesis by blast
qed

end
